theory Spec2Isabelle
  imports Complex_Main
begin

section \<open>Deity-js: the decaying ledger, the mood engine and the tick orchestrator\<close>

text \<open>
  A shallow embedding of the four classes of the repository: \<^verbatim>\<open>Ledger\<close>, \<^verbatim>\<open>Mood\<close>
  (\<^verbatim>\<open>mood.js\<close>), \<^verbatim>\<open>Supplicant\<close> (\<^verbatim>\<open>supplicant.js\<close>) and \<^verbatim>\<open>Deity\<close> (\<^verbatim>\<open>deity.js\<close>).
  Conventions:
  \<^item> a JavaScript number is a \<open>real\<close> (tick counters, which only ever hold integers,
    are \<open>int\<close>); rounding, \<^verbatim>\<open>NaN\<close> and overflow to \<^verbatim>\<open>Infinity\<close> are outside the model,
    so the mood arithmetic is the source's in exact arithmetic. Two places go further:
    \<^verbatim>\<open>ticksSinceLast\<close>, which returns \<^verbatim>\<open>Infinity\<close> on purpose, has a result type of its
    own, and the weight of an entry underflows to 0 as the double does;
  \<^item> an object with optional keys is a record of \<open>option\<close> fields, \<open>None\<close> being an
    absent key; the object spread \<^verbatim>\<open>{...a, ...b}\<close> lets every key present in \<^verbatim>\<open>b\<close> win;
  \<^item> a method that mutates \<^verbatim>\<open>this\<close> takes the object and returns the updated one; a
    method that only reads is a function of the object;
  \<^item> a \<^verbatim>\<open>throw\<close> is a value of type \<open>error\<close>;
  \<^item> a listener is known by its identity only; the calls made to listeners are an output
    of \<^verbatim>\<open>tick\<close>, and a listener that calls back into the deity is outside the model.
\<close>

subsection \<open>Ledger entries and their metadata\<close>

text \<open>The keys that the repository ever writes to or reads from \<^verbatim>\<open>entry.meta\<close>.\<close>

record meta =
  m_offeringType :: "string option"
  m_actionType :: "string option"
  m_desecrationType :: "string option"
  m_value :: "real option"
  m_effectiveValue :: "real option"
  m_alignment :: "string option"
  m_magnitude :: "real option"
  m_favor :: "real option"
  m_target :: "string option"
  m_synthetic :: "bool option"
  m_reason :: "string option"

definition no_meta :: meta where
  "no_meta = \<lparr> m_offeringType = None, m_actionType = None, m_desecrationType = None,
     m_value = None, m_effectiveValue = None, m_alignment = None, m_magnitude = None,
     m_favor = None, m_target = None, m_synthetic = None, m_reason = None \<rparr>"

text \<open>\<^verbatim>\<open>x ?? y\<close> on one key, and \<^verbatim>\<open>{...a, ...b}\<close> key by key.\<close>

fun nullish :: "'a option \<Rightarrow> 'a \<Rightarrow> 'a" where
  "nullish None y = y"
| "nullish (Some x) y = x"

fun later_key :: "'a option \<Rightarrow> 'a option \<Rightarrow> 'a option" where
  "later_key a None = a"
| "later_key a (Some x) = Some x"

definition spread :: "meta \<Rightarrow> meta \<Rightarrow> meta" where
  "spread a b = \<lparr>
     m_offeringType = later_key (m_offeringType a) (m_offeringType b),
     m_actionType = later_key (m_actionType a) (m_actionType b),
     m_desecrationType = later_key (m_desecrationType a) (m_desecrationType b),
     m_value = later_key (m_value a) (m_value b),
     m_effectiveValue = later_key (m_effectiveValue a) (m_effectiveValue b),
     m_alignment = later_key (m_alignment a) (m_alignment b),
     m_magnitude = later_key (m_magnitude a) (m_magnitude b),
     m_favor = later_key (m_favor a) (m_favor b),
     m_target = later_key (m_target a) (m_target b),
     m_synthetic = later_key (m_synthetic a) (m_synthetic b),
     m_reason = later_key (m_reason a) (m_reason b) \<rparr>"

record entry =
  e_type :: string
  e_tick :: int
  e_meta :: meta

text \<open>\<^verbatim>\<open>{ ...e, weight }\<close>: what \<^verbatim>\<open>ofType\<close> returns.\<close>

record wentry = entry +
  e_weight :: real

subsection \<open>Array.prototype.slice with one argument\<close>

text \<open>
  \<^verbatim>\<open>xs.slice(s)\<close>: a negative start counts from the end, and \<^verbatim>\<open>-0\<close> is \<^verbatim>\<open>0\<close>.
\<close>

definition slice_from :: "int \<Rightarrow> 'a list \<Rightarrow> 'a list" where
  "slice_from s xs =
     (let len = int (length xs);
          k = (if s < 0 then max (len + s) 0 else min s len)
      in drop (nat k) xs)"

subsection \<open>Ledger\<close>

record ledger =
  l_halfLife :: real
  l_entries :: "entry list"
  l_tick :: int

definition DEFAULT_HALF_LIFE :: real where
  "DEFAULT_HALF_LIFE = 100"

definition Ledger_new :: "real option \<Rightarrow> ledger" where
  "Ledger_new decayHalfLife =
     \<lparr> l_halfLife = nullish decayHalfLife DEFAULT_HALF_LIFE, l_entries = [], l_tick = 0 \<rparr>"

definition Ledger_size :: "ledger \<Rightarrow> nat" where
  "Ledger_size l = length (l_entries l)"

definition Ledger_record :: "ledger \<Rightarrow> string \<Rightarrow> meta \<Rightarrow> ledger" where
  "Ledger_record l ty m =
     l\<lparr> l_entries := l_entries l @ [\<lparr> e_type = ty, e_tick = l_tick l, e_meta = m \<rparr>] \<rparr>"

definition Ledger_advanceTick :: "ledger \<Rightarrow> int \<Rightarrow> ledger" where
  "Ledger_advanceTick l n = l\<lparr> l_tick := l_tick l + n \<rparr>"

text \<open>
  \<^verbatim>\<open>Math.pow(0.5, age / halfLife)\<close> with \<^verbatim>\<open>age = Math.max(0, tick - entry.tick)\<close>. The result
  is a double: a power that is at most \<open>2 ^ -1075\<close>, half the least positive double, is
  returned as exactly 0. The rounding of the powers above that, a half-life of \<^verbatim>\<open>0\<close> (the
  source divides by zero: \<^verbatim>\<open>NaN\<close> or \<^verbatim>\<open>Infinity\<close>) and the overflow of the power for a
  negative half-life are not modelled.
\<close>

definition underflow_threshold :: real where
  "underflow_threshold = 1 / 2 ^ 1075"

definition Ledger_weight :: "ledger \<Rightarrow> 'a entry_scheme \<Rightarrow> real" where
  "Ledger_weight l e =
     (let age = max 0 (l_tick l - e_tick e);
          p = (1/2) powr (real_of_int age / l_halfLife l)
      in if p \<le> underflow_threshold then 0 else p)"

definition Ledger_ofType :: "ledger \<Rightarrow> string \<Rightarrow> wentry list" where
  "Ledger_ofType l ty =
     map (\<lambda>e. \<lparr> e_type = e_type e, e_tick = e_tick e, e_meta = e_meta e,
                 e_weight = Ledger_weight l e \<rparr>)
       (filter (\<lambda>e. e_type e = ty) (l_entries l))"

definition Ledger_weightedCount :: "ledger \<Rightarrow> string \<Rightarrow> real" where
  "Ledger_weightedCount l ty =
     foldl (\<lambda>sum e. if e_type e = ty then sum + Ledger_weight l e else sum) 0 (l_entries l)"

text \<open>The result of \<^verbatim>\<open>ticksSinceLast\<close>: a tick difference, or \<^verbatim>\<open>Infinity\<close> if never.\<close>

datatype since = Ticks int | Infinity

definition Ledger_ticksSinceLast :: "ledger \<Rightarrow> string \<Rightarrow> since" where
  "Ledger_ticksSinceLast l ty =
     (case List.find (\<lambda>e. e_type e = ty) (rev (l_entries l)) of
        Some e \<Rightarrow> Ticks (l_tick l - e_tick e)
      | None \<Rightarrow> Infinity)"

text \<open>\<^verbatim>\<open>a || b || ''\<close> on strings: the empty string is falsy.\<close>

definition sub_kind :: "meta \<Rightarrow> string" where
  "sub_kind m =
     (case m_offeringType m of
        Some s \<Rightarrow> if s \<noteq> [] then s else nullish (m_actionType m) []
      | None \<Rightarrow> nullish (m_actionType m) [])"

definition Ledger_variety :: "ledger \<Rightarrow> nat" where
  "Ledger_variety l =
     length (remdups (map (\<lambda>e. e_type e @ '':'' @ sub_kind (e_meta e)) (l_entries l)))"

definition Ledger_currentStreak :: "ledger \<Rightarrow> string \<Rightarrow> nat" where
  "Ledger_currentStreak l ty = length (takeWhile (\<lambda>e. e_type e = ty) (rev (l_entries l)))"

definition Ledger_recent :: "ledger \<Rightarrow> int \<Rightarrow> entry list" where
  "Ledger_recent l n = rev (slice_from (- n) (l_entries l))"

record ledger_data =
  ld_halfLife :: real
  ld_tick :: int
  ld_entries :: "entry list"

definition Ledger_serialize :: "ledger \<Rightarrow> ledger_data" where
  "Ledger_serialize l =
     \<lparr> ld_halfLife = l_halfLife l, ld_tick = l_tick l,
       ld_entries = map (\<lambda>e. e\<lparr> e_meta := spread no_meta (e_meta e) \<rparr>) (l_entries l) \<rparr>"

definition Ledger_deserialize :: "ledger_data \<Rightarrow> ledger" where
  "Ledger_deserialize data =
     (Ledger_new (Some (ld_halfLife data)))
       \<lparr> l_tick := ld_tick data,
         l_entries := map (\<lambda>e. e\<lparr> e_meta := spread no_meta (e_meta e) \<rparr>) (ld_entries data) \<rparr>"

subsection \<open>Mood\<close>

datatype dimension = Wrath | Serenity | Hunger | Amusement | Sorrow | Chaos

definition DIMENSIONS :: "dimension list" where
  "DIMENSIONS = [Wrath, Serenity, Hunger, Amusement, Sorrow, Chaos]"

type_synonym vec = "dimension \<Rightarrow> real"

text \<open>\<^verbatim>\<open>xs.indexOf(x)\<close>: the first position of \<open>x\<close>, or \<open>-1\<close>.\<close>

fun indexOf :: "'a list \<Rightarrow> 'a \<Rightarrow> int" where
  "indexOf [] x = - 1"
| "indexOf (y # ys) x = (if y = x then 0 else (let i = indexOf ys x in if i < 0 then - 1 else i + 1))"

record mood =
  personality :: vec
  hysteresis :: real
  attractorStrength :: real
  vector :: vec
  dirty :: bool
  lastResolvedTick :: int

definition Mood_fromPartial :: "(dimension \<Rightarrow> real option) \<Rightarrow> vec" where
  "Mood_fromPartial partial =
     (let assigned = foldl (\<lambda>a d. case partial d of Some x \<Rightarrow> a + x | None \<Rightarrow> a) 0 DIMENSIONS;
          remaining = max 0 (1 - assigned);
          unassigned = filter (\<lambda>d. partial d = None) DIMENSIONS;
          share = (if length unassigned > 0 then remaining / real (length unassigned) else 0)
      in (\<lambda>d. case partial d of Some x \<Rightarrow> x | None \<Rightarrow> share))"

text \<open>
  \<^verbatim>\<open>normalize\<close> reads \<^verbatim>\<open>vec[d] || 0\<close>; on a vector that has all six dimensions and holds
  numbers, \<^verbatim>\<open>|| 0\<close> changes nothing (the only falsy number of the model is 0). This is
  \<^verbatim>\<open>normalize\<close> in exact arithmetic. In the source a component that has overflowed to
  \<^verbatim>\<open>Infinity\<close> makes the sum \<^verbatim>\<open>Infinity\<close> and its own quotient \<^verbatim>\<open>NaN\<close>; the reals have
  neither, so nothing proved about \<open>Mood_normalize\<close> speaks about such vectors.
\<close>

definition Mood_normalize :: "vec \<Rightarrow> vec" where
  "Mood_normalize vec =
     (let sum = foldl (\<lambda>s d. s + max 0 (vec d)) 0 DIMENSIONS
      in if sum = 0 then (\<lambda>d. 1 / real (length DIMENSIONS))
         else (\<lambda>d. max 0 (vec d) / sum))"

definition Mood_new :: "(dimension \<Rightarrow> real option) \<Rightarrow> real option \<Rightarrow> real option \<Rightarrow> mood" where
  "Mood_new partial hyst attr =
     (let p = Mood_normalize (Mood_fromPartial partial)
      in \<lparr> personality = p, hysteresis = nullish hyst (3/10),
           attractorStrength = nullish attr (5/100),
           vector = p, dirty = False, lastResolvedTick = - 1 \<rparr>)"

text \<open>\<^verbatim>\<open>impulse[d] += x\<close>.\<close>

definition bump :: "vec \<Rightarrow> dimension \<Rightarrow> real \<Rightarrow> vec" where
  "bump v d x = v(d := v d + x)"

text \<open>The offering signal: the local \<^verbatim>\<open>offerImpact\<close> of \<^verbatim>\<open>_computeImpulse\<close>.\<close>

definition offerImpact :: "ledger \<Rightarrow> real" where
  "offerImpact l =
     (let offers = filter (\<lambda>e. \<not> nullish (m_synthetic (e_meta e)) False) (Ledger_ofType l ''offer'')
      in foldl (\<lambda>acc ofr.
           acc + nullish (m_effectiveValue (e_meta ofr)) (nullish (m_value (e_meta ofr)) (3/10))
                 * e_weight ofr)
         0 offers)"

definition impulse_offers :: "ledger \<Rightarrow> vec \<Rightarrow> vec" where
  "impulse_offers l impulse =
     (let oi = offerImpact l
      in if oi > 0 then
           bump (bump (bump impulse Serenity (oi * (4/100))) Hunger (- (oi * (3/100))))
             Wrath (- (oi * (2/100)))
         else if oi < 0 then
           bump (bump impulse Wrath (- (oi * (6/100)))) Amusement (1/100)
         else impulse)"

definition impulse_variety :: "ledger \<Rightarrow> vec \<Rightarrow> vec" where
  "impulse_variety l impulse =
     bump impulse Amusement (min (real (Ledger_variety l) * (2/100)) (1/10))"

definition action_impulse :: "vec \<Rightarrow> wentry \<Rightarrow> vec" where
  "action_impulse impulse a =
     (let favor = nullish (m_favor (e_meta a)) 0;
          mag = nullish (m_magnitude (e_meta a)) (3/10);
          impact = favor * mag * e_weight a
      in if impact > 0 then
           bump (bump (bump impulse Serenity (impact * (3/100))) Amusement (impact * (2/100)))
             Wrath (- (impact * (1/100)))
         else if impact < 0 then
           bump (bump (bump impulse Wrath (- (impact * (4/100)))) Sorrow (- (impact * (2/100))))
             Serenity (impact * (2/100))
         else impulse)"

definition impulse_actions :: "ledger \<Rightarrow> vec \<Rightarrow> vec" where
  "impulse_actions l impulse = foldl action_impulse impulse (Ledger_ofType l ''action'')"

definition impulse_prayer :: "ledger \<Rightarrow> vec \<Rightarrow> vec" where
  "impulse_prayer l impulse =
     (let prayWeight = Ledger_weightedCount l ''pray'';
          prayStreak = Ledger_currentStreak l ''pray''
      in if prayStreak > 2 then
           bump (bump impulse Wrath (real prayStreak * (5/100))) Amusement (- (3/100))
         else if prayWeight > 0 \<and> prayWeight < 15/10 then
           bump impulse Serenity (3/100)
         else impulse)"

definition impulse_desecration :: "ledger \<Rightarrow> vec \<Rightarrow> vec" where
  "impulse_desecration l impulse =
     (let desecrateWeight = Ledger_weightedCount l ''desecrate''
      in bump (bump (bump impulse Wrath (desecrateWeight * (1/10))) Chaos (desecrateWeight * (6/100)))
           Serenity (- (desecrateWeight * (8/100))))"

text \<open>\<^verbatim>\<open>Math.min\<close> and \<^verbatim>\<open>>\<close> where an argument may be \<^verbatim>\<open>Infinity\<close>.\<close>

fun Math_min :: "since \<Rightarrow> since \<Rightarrow> since" where
  "Math_min Infinity b = b"
| "Math_min a Infinity = a"
| "Math_min (Ticks a) (Ticks b) = Ticks (min a b)"

fun since_gt :: "since \<Rightarrow> real \<Rightarrow> bool" where
  "since_gt Infinity x = True"
| "since_gt (Ticks t) x = (real_of_int t > x)"

text \<open>\<^verbatim>\<open>Math.min(ticksSinceAny / 20, 1)\<close>.\<close>

fun neglectFactor :: "since \<Rightarrow> real" where
  "neglectFactor Infinity = 1"
| "neglectFactor (Ticks t) = min (real_of_int t / 20) 1"

definition impulse_neglect :: "ledger \<Rightarrow> vec \<Rightarrow> vec" where
  "impulse_neglect l impulse =
     (let neglectWeight = Ledger_weightedCount l ''neglect'';
          ticksSinceOffer = Ledger_ticksSinceLast l ''offer'';
          ticksSincePray = Ledger_ticksSinceLast l ''pray'';
          ticksSinceAny = Math_min ticksSinceOffer ticksSincePray;
          nf = neglectFactor ticksSinceAny
      in bump (bump (bump impulse Hunger (neglectWeight * (3/100) + nf * (5/100)))
                 Sorrow (nf * (4/100)))
           Serenity (- (nf * (3/100))))"

definition impulse_repetition :: "ledger \<Rightarrow> vec \<Rightarrow> vec" where
  "impulse_repetition l impulse =
     (if Ledger_size l > 0 then
        (let last5 = Ledger_recent l 5;
             types = map e_type last5;
             uniqueRatio = real (length (remdups types)) / real (length types)
         in if uniqueRatio < 1/2 then
              bump (bump impulse Amusement (- (3/100))) Wrath (2/100)
            else impulse)
      else impulse)"

definition Mood_computeImpulse :: "ledger \<Rightarrow> vec" where
  "Mood_computeImpulse l =
     impulse_repetition l (impulse_neglect l (impulse_desecration l (impulse_prayer l
       (impulse_actions l (impulse_variety l (impulse_offers l (\<lambda>d. 0)))))))"

definition Mood_computeAttractor :: "mood \<Rightarrow> vec" where
  "Mood_computeAttractor m = (\<lambda>d. (personality m d - vector m d) * attractorStrength m)"

text \<open>The body of the loop of \<^verbatim>\<open>resolve\<close>: the vector \<^verbatim>\<open>raw\<close> handed to \<^verbatim>\<open>normalize\<close>.\<close>

definition Mood_raw :: "mood \<Rightarrow> ledger \<Rightarrow> vec" where
  "Mood_raw m l =
     (let impulse = Mood_computeImpulse l;
          attractor = Mood_computeAttractor m
      in (\<lambda>d.
        let current = vector m d;
            imp = impulse d;
            att = attractor d;
            resistance = current * hysteresis m;
            delta = imp + att;
            effectiveDelta = (if delta > 0 then delta * (1 - resistance)
                              else delta * (1 + resistance))
        in current + effectiveDelta))"

definition Mood_resolve :: "mood \<Rightarrow> ledger \<Rightarrow> int \<Rightarrow> mood" where
  "Mood_resolve m l currentTick =
     (if currentTick = lastResolvedTick m then m
      else m\<lparr> vector := Mood_normalize (Mood_raw m l), lastResolvedTick := currentTick \<rparr>)"

definition Mood_query :: "mood \<Rightarrow> bool \<Rightarrow> vec" where
  "Mood_query m precise =
     (if precise then vector m
      else Mood_normalize (\<lambda>d.
        let v = vector m d;
            noise = sin (v * 1000 + real_of_int (indexOf DIMENSIONS d)) * (2/100)
        in max 0 (min 1 (v + noise))))"

definition Mood_dominant :: "mood \<Rightarrow> dimension option \<times> real" where
  "Mood_dominant m =
     foldl (\<lambda>(dom, mx) d. if vector m d > mx then (Some d, vector m d) else (dom, mx))
       (None, - 1) DIMENSIONS"

definition Mood_exceeds :: "mood \<Rightarrow> dimension \<Rightarrow> real \<Rightarrow> bool" where
  "Mood_exceeds m dimension threshold = (vector m dimension > threshold)"

record mood_data =
  md_personality :: vec
  md_vector :: vec
  md_hysteresis :: real
  md_attractorStrength :: real
  md_lastResolvedTick :: int

definition Mood_serialize :: "mood \<Rightarrow> mood_data" where
  "Mood_serialize m =
     \<lparr> md_personality = personality m, md_vector = vector m, md_hysteresis = hysteresis m,
       md_attractorStrength = attractorStrength m, md_lastResolvedTick = lastResolvedTick m \<rparr>"

definition Mood_deserialize :: "mood_data \<Rightarrow> mood" where
  "Mood_deserialize data =
     (Mood_new (\<lambda>d. Some (md_personality data d))
        (Some (md_hysteresis data)) (Some (md_attractorStrength data)))
       \<lparr> vector := md_vector data, lastResolvedTick := md_lastResolvedTick data \<rparr>"

subsection \<open>Supplicant\<close>

record supplicant =
  seqLen :: int
  history :: "string list"
  freq :: "string \<rightharpoonup> nat"
  totalInteractions :: nat
  correctPredictions :: nat
  lastPrediction :: "string option"
  lastConfidence :: real
  surprise :: real

definition DEFAULT_SEQUENCE_LENGTH :: int where
  "DEFAULT_SEQUENCE_LENGTH = 10"

definition Supplicant_new :: "int option \<Rightarrow> supplicant" where
  "Supplicant_new sequenceLength =
     \<lparr> seqLen = nullish sequenceLength DEFAULT_SEQUENCE_LENGTH, history = [], freq = Map.empty,
       totalInteractions = 0, correctPredictions = 0, lastPrediction = None,
       lastConfidence = 0, surprise = 0 \<rparr>"

definition Supplicant_omniscient :: "supplicant \<Rightarrow> bool" where
  "Supplicant_omniscient s =
     (if totalInteractions s < 10 then False
      else real (correctPredictions s) / real (totalInteractions s) > 85/100)"

text \<open>
  \<^verbatim>\<open>counts[t] = (counts[t] || 0) + 1\<close> on an object whose keys are listed by
  \<^verbatim>\<open>Object.entries\<close> in the order of their first insertion (the keys here are event
  names, never integer-like strings).
\<close>

fun count_key :: "string \<Rightarrow> (string \<times> nat) list \<Rightarrow> (string \<times> nat) list" where
  "count_key t [] = [(t, 1)]"
| "count_key t ((k, c) # kcs) = (if k = t then (k, c + 1) # kcs else (k, c) # count_key t kcs)"

definition Supplicant_predict :: "supplicant \<Rightarrow> supplicant" where
  "Supplicant_predict s =
     (let window = slice_from (- seqLen s) (history s);
          counts = foldl (\<lambda>cs t. count_key t cs) [] window;
          best = foldl (\<lambda>(bestType, bestCount) (t, c).
                         if c > bestCount then (Some t, c) else (bestType, bestCount))
                   (None, 0) counts
      in s\<lparr> lastPrediction := fst best,
             lastConfidence := (if length window > 0
                                then real (snd best) / real (length window) else 0) \<rparr>)"

record signal =
  predicted :: "string option"
  surprised :: bool

definition Supplicant_record :: "supplicant \<Rightarrow> string \<Rightarrow> signal \<times> supplicant" where
  "Supplicant_record s ty =
     (let pred = lastPrediction s;
          surp = (pred \<noteq> None \<and> pred \<noteq> Some ty);
          pushed = history s @ [ty]
      in (\<lparr> predicted = pred, surprised = surp \<rparr>,
          Supplicant_predict (s\<lparr>
            correctPredictions :=
              (if pred = Some ty then correctPredictions s + 1 else correctPredictions s),
            surprise := (if surp then min 1 (surprise s + 3/10) else max 0 (surprise s - 1/10)),
            history := (if int (length pushed) > seqLen s * 3
                        then slice_from (- seqLen s * 2) pushed else pushed),
            freq := (freq s)(ty \<mapsto> nullish (freq s ty) 0 + 1),
            totalInteractions := totalInteractions s + 1 \<rparr>)))"

record supplicant_data =
  sd_seqLen :: int
  sd_history :: "string list"
  sd_freq :: "string \<rightharpoonup> nat"
  sd_total :: nat
  sd_correct :: nat
  sd_lastPrediction :: "string option"
  sd_lastConfidence :: real
  sd_surprise :: real

definition Supplicant_serialize :: "supplicant \<Rightarrow> supplicant_data" where
  "Supplicant_serialize s =
     \<lparr> sd_seqLen = seqLen s, sd_history = history s, sd_freq = freq s,
       sd_total = totalInteractions s, sd_correct = correctPredictions s,
       sd_lastPrediction = lastPrediction s, sd_lastConfidence = lastConfidence s,
       sd_surprise = surprise s \<rparr>"

definition Supplicant_deserialize :: "supplicant_data \<Rightarrow> supplicant" where
  "Supplicant_deserialize data =
     (Supplicant_new (Some (sd_seqLen data)))
       \<lparr> history := sd_history data, freq := sd_freq data, totalInteractions := sd_total data,
         correctPredictions := sd_correct data, lastPrediction := sd_lastPrediction data,
         lastConfidence := sd_lastConfidence data, surprise := sd_surprise data \<rparr>"

subsection \<open>Deity\<close>

definition EVENTS :: "string list" where
  "EVENTS = [''moodShift'', ''utterance'', ''demand'', ''omen'', ''miracle'', ''wrath'']"

record thresholds =
  th_wrath :: real
  th_miracle :: real
  th_demand :: real
  th_omen :: real

text \<open>A listener is a callback; only its identity matters to the deity (\<^verbatim>\<open>f !== fn\<close>).\<close>

type_synonym listener = nat

record deity =
  d_name :: string
  d_alignment :: string
  d_ledger :: ledger
  d_mood :: mood
  d_supplicant :: supplicant
  d_favorMap :: "string \<rightharpoonup> real"
  d_listeners :: "string \<rightharpoonup> listener list"
  d_thresholds :: thresholds
  d_neglectThreshold :: real
  d_prevDominant :: "dimension option"
  d_tick :: int

text \<open>The options of the constructor, each with its default when absent.\<close>

record deity_opts =
  o_personality :: "dimension \<Rightarrow> real option"
  o_name :: "string option"
  o_hysteresis :: "real option"
  o_attractorStrength :: "real option"
  o_decayHalfLife :: "real option"
  o_sequenceLength :: "int option"
  o_th_wrath :: "real option"
  o_th_miracle :: "real option"
  o_th_demand :: "real option"
  o_th_omen :: "real option"
  o_alignment :: "string option"
  o_favorMap :: "string \<rightharpoonup> real"
  o_neglectThreshold :: "real option"

definition default_opts :: deity_opts where
  "default_opts = \<lparr> o_personality = (\<lambda>d. None), o_name = None, o_hysteresis = None,
     o_attractorStrength = None, o_decayHalfLife = None, o_sequenceLength = None,
     o_th_wrath = None, o_th_miracle = None, o_th_demand = None, o_th_omen = None,
     o_alignment = None, o_favorMap = Map.empty, o_neglectThreshold = None \<rparr>"

definition default_favorMap :: "string \<rightharpoonup> real" where
  "default_favorMap =
     [''kill'' \<mapsto> 0, ''steal'' \<mapsto> 0, ''heal'' \<mapsto> 2/10, ''destroy'' \<mapsto> - (1/10),
      ''create'' \<mapsto> 2/10, ''betray'' \<mapsto> - (3/10), ''protect'' \<mapsto> 3/10]"

definition Deity_new :: "deity_opts \<Rightarrow> deity" where
  "Deity_new opts =
     \<lparr> d_name = nullish (o_name opts) ''The Unnamed'',
       d_alignment = nullish (o_alignment opts) ''neutral'',
       d_ledger = Ledger_new (o_decayHalfLife opts),
       d_mood = Mood_new (o_personality opts) (o_hysteresis opts) (o_attractorStrength opts),
       d_supplicant = Supplicant_new (o_sequenceLength opts),
       d_favorMap = default_favorMap ++ o_favorMap opts,
       d_listeners = foldl (\<lambda>ls e. ls(e \<mapsto> [])) Map.empty EVENTS,
       d_thresholds = \<lparr> th_wrath = nullish (o_th_wrath opts) (4/10),
                        th_miracle = nullish (o_th_miracle opts) (5/10),
                        th_demand = nullish (o_th_demand opts) (35/100),
                        th_omen = nullish (o_th_omen opts) (3/10) \<rparr>,
       d_neglectThreshold = nullish (o_neglectThreshold opts) 3,
       d_prevDominant = None,
       d_tick = 0 \<rparr>"

datatype error = UnknownEvent string | TypeError

text \<open>
  \<^verbatim>\<open>_listeners\<close> is a plain object, so \<^verbatim>\<open>this._listeners[event]\<close> also finds what
  \<^verbatim>\<open>Object.prototype\<close> provides: a truthy value without a \<^verbatim>\<open>push\<close> method, on which
  \<^verbatim>\<open>on\<close> fails with a \<^verbatim>\<open>TypeError\<close> instead of the \<^verbatim>\<open>Unknown event\<close> error.
\<close>

definition Object_prototype_keys :: "string list" where
  "Object_prototype_keys =
     [''constructor'', ''__defineGetter__'', ''__defineSetter__'', ''hasOwnProperty'',
      ''__lookupGetter__'', ''__lookupSetter__'', ''isPrototypeOf'', ''propertyIsEnumerable'',
      ''toString'', ''valueOf'', ''__proto__'', ''toLocaleString'']"

text \<open>The error thrown, if any, and \<^verbatim>\<open>this\<close> after the call.\<close>

definition Deity_on :: "deity \<Rightarrow> string \<Rightarrow> listener \<Rightarrow> error option \<times> deity" where
  "Deity_on d event fn =
     (case d_listeners d event of
        Some fs \<Rightarrow> (None, d\<lparr> d_listeners := (d_listeners d)(event \<mapsto> fs @ [fn]) \<rparr>)
      | None \<Rightarrow>
          if event \<in> set Object_prototype_keys then (Some TypeError, d)
          else (Some (UnknownEvent event), d))"

text \<open>The closure returned by a successful \<^verbatim>\<open>on(event, fn)\<close>.\<close>

definition Deity_unsubscribe :: "deity \<Rightarrow> string \<Rightarrow> listener \<Rightarrow> deity" where
  "Deity_unsubscribe d event fn =
     (case d_listeners d event of
        Some fs \<Rightarrow> d\<lparr> d_listeners := (d_listeners d)(event \<mapsto> filter (\<lambda>f. f \<noteq> fn) fs) \<rparr>
      | None \<Rightarrow> d)"

datatype notification =
    MoodShift dimension "dimension option" vec int
  | WrathEvent real int
  | DemandEvent real int
  | OmenEvent real int
  | MiracleEvent real int
  | UtteranceEvent vec "dimension option \<times> real" real int

text \<open>
  \<^verbatim>\<open>_emit\<close> calls every listener of the event with the data; what a callback throws is
  caught. The calls are the output of the model: the listener and what it receives.
\<close>

definition Deity_emit :: "deity \<Rightarrow> string \<Rightarrow> notification \<Rightarrow> (listener \<times> notification) list" where
  "Deity_emit d event data = map (\<lambda>fn. (fn, data)) (nullish (d_listeners d event) [])"

text \<open>
  \<^verbatim>\<open>_modulateFromSurprise\<close>: the signal is always an object, so \<^verbatim>\<open>!surprise\<close> is false and
  only \<^verbatim>\<open>surprise.predicted === null\<close> returns early.
\<close>

definition Deity_modulateFromSurprise :: "deity \<Rightarrow> signal \<Rightarrow> deity" where
  "Deity_modulateFromSurprise d sg =
     (if predicted sg = None then d
      else if surprised sg then
        d\<lparr> d_ledger := Ledger_record (d_ledger d) ''offer''
             (no_meta\<lparr> m_offeringType := Some ''_surprise_bonus'', m_synthetic := Some True \<rparr>) \<rparr>
      else if Supplicant_omniscient (d_supplicant d) then
        d\<lparr> d_ledger := Ledger_record (d_ledger d) ''neglect''
             (no_meta\<lparr> m_synthetic := Some True, m_reason := Some ''predictability'' \<rparr>) \<rparr>
      else d)"

text \<open>
  \<^verbatim>\<open>offer(type = 'generic', meta = {})\<close>. The test \<^verbatim>\<open>if (this._alignment)\<close> fails on the
  empty string. The caller's metadata is spread last over the computed keys.
\<close>

definition Deity_offer :: "deity \<Rightarrow> string option \<Rightarrow> meta \<Rightarrow> deity" where
  "Deity_offer d ty m =
     (let val = max 0 (min 1 (nullish (m_value m) (3/10)));
          alignment = nullish (m_alignment m) ''neutral'';
          effectiveValue =
            (if d_alignment d \<noteq> [] then
               (if alignment = d_alignment d then val * (15/10)
                else if alignment \<noteq> ''neutral'' \<and> alignment \<noteq> d_alignment d then val * (- (5/10))
                else val)
             else val);
          d1 = d\<lparr> d_ledger := Ledger_record (d_ledger d) ''offer''
                 (spread (no_meta\<lparr> m_offeringType := Some (nullish ty ''generic''),
                                    m_value := Some val,
                                    m_effectiveValue := Some effectiveValue,
                                    m_alignment := Some alignment \<rparr>) m) \<rparr>;
          r = Supplicant_record (d_supplicant d1) ''offer''
      in Deity_modulateFromSurprise (d1\<lparr> d_supplicant := snd r \<rparr>) (fst r))"

definition Deity_pray :: "deity \<Rightarrow> deity" where
  "Deity_pray d =
     (let d1 = d\<lparr> d_ledger := Ledger_record (d_ledger d) ''pray'' no_meta \<rparr>;
          r = Supplicant_record (d_supplicant d1) ''pray''
      in Deity_modulateFromSurprise (d1\<lparr> d_supplicant := snd r \<rparr>) (fst r))"

definition Deity_desecrate :: "deity \<Rightarrow> string option \<Rightarrow> deity" where
  "Deity_desecrate d ty =
     (let d1 = d\<lparr> d_ledger := Ledger_record (d_ledger d) ''desecrate''
                 (no_meta\<lparr> m_desecrationType := Some (nullish ty ''generic'') \<rparr>) \<rparr>;
          r = Supplicant_record (d_supplicant d1) ''desecrate''
      in Deity_modulateFromSurprise (d1\<lparr> d_supplicant := snd r \<rparr>) (fst r))"

text \<open>
  \<^verbatim>\<open>action\<close> looks the type up in the favor map, a map from action names to numbers; the
  observation is reported to the predictor as an \<^verbatim>\<open>offer\<close> and its signal is dropped.
\<close>

definition Deity_action :: "deity \<Rightarrow> string \<Rightarrow> meta \<Rightarrow> deity" where
  "Deity_action d ty m =
     (let magnitude = max 0 (min 1 (nullish (m_magnitude m) (3/10)));
          favor = d_favorMap d ty;
          d1 = d\<lparr> d_ledger := Ledger_record (d_ledger d) ''action''
                 (spread (no_meta\<lparr> m_actionType := Some ty,
                                    m_magnitude := Some magnitude,
                                    m_favor := Some (nullish favor 0) \<rparr>) m) \<rparr>
      in d1\<lparr> d_supplicant := snd (Supplicant_record (d_supplicant d1) ''offer'') \<rparr>)"

record query_result =
  q_mood :: vec
  q_dominant :: "dimension option \<times> real"
  q_tick :: int

definition Deity_query :: "deity \<Rightarrow> query_result" where
  "Deity_query d =
     \<lparr> q_mood = Mood_query (d_mood d) False, q_dominant = Mood_dominant (d_mood d),
       q_tick = d_tick d \<rparr>"

definition Deity_queryPrecise :: "deity \<Rightarrow> vec" where
  "Deity_queryPrecise d = Mood_query (d_mood d) True"

definition Deity_miracleChance :: "deity \<Rightarrow> bool" where
  "Deity_miracleChance d = (sin (real_of_int (d_tick d) * (1271/10)) * (1/2) + 1/2 < 2/100)"

definition Deity_shouldSpeak :: "deity \<Rightarrow> bool" where
  "Deity_shouldSpeak d =
     (let dom = Mood_dominant (d_mood d);
          baseChance = 1/10;
          extremeBoost = (if snd dom > 1/2 then 15/100 else 0);
          threshold = baseChance + extremeBoost
      in sin (real_of_int (d_tick d) * (437/10) + 173/10) * (1/2) + 1/2 < threshold)"

text \<open>
  \<^verbatim>\<open>_checkEvents\<close>: the calls made to the listeners, in order, and \<^verbatim>\<open>this\<close> afterwards
  (only \<^verbatim>\<open>_prevDominant\<close> is written).
\<close>

definition Deity_checkEvents :: "deity \<Rightarrow> (listener \<times> notification) list \<times> deity" where
  "Deity_checkEvents d =
     (let precise = Deity_queryPrecise d;
          dom = Mood_dominant (d_mood d);
          c1 = (case d_prevDominant d of
                  Some p \<Rightarrow>
                    if Some p \<noteq> fst dom
                    then Deity_emit d ''moodShift''
                           (MoodShift p (fst dom) (Mood_query (d_mood d) False) (d_tick d))
                    else []
                | None \<Rightarrow> []);
          d1 = d\<lparr> d_prevDominant := fst dom \<rparr>;
          c2 = (if precise Wrath > th_wrath (d_thresholds d1)
                then Deity_emit d1 ''wrath'' (WrathEvent (precise Wrath) (d_tick d1)) else []);
          c3 = (if precise Hunger > th_demand (d_thresholds d1)
                then Deity_emit d1 ''demand'' (DemandEvent (precise Hunger) (d_tick d1)) else []);
          c4 = (if precise Chaos > th_omen (d_thresholds d1)
                then Deity_emit d1 ''omen'' (OmenEvent (precise Chaos) (d_tick d1)) else []);
          c5 = (if precise Serenity > th_miracle (d_thresholds d1) \<and> precise Wrath < 1/10
                   \<and> Deity_miracleChance d1
                then Deity_emit d1 ''miracle'' (MiracleEvent (precise Serenity) (d_tick d1))
                else []);
          c6 = (if Deity_shouldSpeak d1
                then Deity_emit d1 ''utterance''
                       (UtteranceEvent (Mood_query (d_mood d1) False) dom
                          (surprise (d_supplicant d1)) (d_tick d1))
                else [])
      in (c1 @ c2 @ c3 @ c4 @ c5 @ c6, d1))"

text \<open>One iteration of the loop of \<^verbatim>\<open>tick\<close>.\<close>

definition tick_step :: "deity \<Rightarrow> (listener \<times> notification) list \<times> deity" where
  "tick_step d =
     (let d1 = d\<lparr> d_tick := d_tick d + 1 \<rparr>;
          d2 = d1\<lparr> d_ledger := Ledger_advanceTick (d_ledger d1) 1 \<rparr>;
          ticksSinceOffer = Ledger_ticksSinceLast (d_ledger d2) ''offer'';
          ticksSincePray = Ledger_ticksSinceLast (d_ledger d2) ''pray'';
          ticksSinceDesecrate = Ledger_ticksSinceLast (d_ledger d2) ''desecrate'';
          minTicksSince = Math_min (Math_min ticksSinceOffer ticksSincePray) ticksSinceDesecrate;
          d3 = (if since_gt minTicksSince (d_neglectThreshold d2) then
                  d2\<lparr> d_ledger := Ledger_record (d_ledger d2) ''neglect''
                                      (no_meta\<lparr> m_synthetic := Some True \<rparr>),
                      d_supplicant := snd (Supplicant_record (d_supplicant d2) ''neglect'') \<rparr>
                else d2);
          d4 = d3\<lparr> d_mood := Mood_resolve (d_mood d3) (d_ledger d3) (d_tick d3) \<rparr>
      in Deity_checkEvents d4)"

text \<open>
  \<^verbatim>\<open>tick(dt)\<close> for a count \<open>dt\<close> of ticks (1 when omitted): the loop runs \<open>dt\<close> times; the
  calls to listeners accumulate.
\<close>

fun Deity_tick :: "deity \<Rightarrow> nat \<Rightarrow> (listener \<times> notification) list \<times> deity" where
  "Deity_tick d 0 = ([], d)"
| "Deity_tick d (Suc dt) =
     (let r = tick_step d; r' = Deity_tick (snd r) dt in (fst r @ fst r', snd r'))"

record deity_data =
  dd_name :: string
  dd_alignment :: string
  dd_favorMap :: "string \<rightharpoonup> real"
  dd_tick :: int
  dd_ledger :: ledger_data
  dd_mood :: mood_data
  dd_supplicant :: supplicant_data
  dd_thresholds :: thresholds
  dd_neglectThreshold :: real
  dd_prevDominant :: "dimension option"

definition Deity_serialize :: "deity \<Rightarrow> deity_data" where
  "Deity_serialize d =
     \<lparr> dd_name = d_name d, dd_alignment = d_alignment d, dd_favorMap = d_favorMap d,
       dd_tick = d_tick d, dd_ledger = Ledger_serialize (d_ledger d),
       dd_mood = Mood_serialize (d_mood d),
       dd_supplicant = Supplicant_serialize (d_supplicant d),
       dd_thresholds = d_thresholds d, dd_neglectThreshold = d_neglectThreshold d,
       dd_prevDominant = d_prevDominant d \<rparr>"

definition Deity_deserialize :: "deity_data \<Rightarrow> deity" where
  "Deity_deserialize data =
     (Deity_new (default_opts\<lparr>
          o_name := Some (dd_name data),
          o_alignment := Some (dd_alignment data),
          o_favorMap := dd_favorMap data,
          o_th_wrath := Some (th_wrath (dd_thresholds data)),
          o_th_miracle := Some (th_miracle (dd_thresholds data)),
          o_th_demand := Some (th_demand (dd_thresholds data)),
          o_th_omen := Some (th_omen (dd_thresholds data)),
          o_neglectThreshold := Some (dd_neglectThreshold data) \<rparr>))
       \<lparr> d_tick := dd_tick data,
         d_ledger := Ledger_deserialize (dd_ledger data),
         d_mood := Mood_deserialize (dd_mood data),
         d_supplicant := Supplicant_deserialize (dd_supplicant data),
         d_prevDominant := dd_prevDominant data \<rparr>"

subsection \<open>Reachable states\<close>

text \<open>
  The mood engines that the public interface can produce: the constructor, any number of
  \<^verbatim>\<open>resolve\<close> calls, and a snapshot taken and restored.
\<close>

inductive Mood_reachable :: "mood \<Rightarrow> bool" where
  new: "Mood_reachable (Mood_new partial hyst attr)"
| resolve: "Mood_reachable m \<Longrightarrow> Mood_reachable (Mood_resolve m l t)"
| restore: "Mood_reachable m \<Longrightarrow> Mood_reachable (Mood_deserialize (Mood_serialize m))"

text \<open>The deities that the public interface can produce.\<close>

inductive Deity_reachable :: "deity \<Rightarrow> bool" where
  new: "Deity_reachable (Deity_new opts)"
| on: "Deity_reachable d \<Longrightarrow> Deity_reachable (snd (Deity_on d event fn))"
| unsubscribe: "Deity_reachable d \<Longrightarrow> Deity_reachable (Deity_unsubscribe d event fn)"
| offer: "Deity_reachable d \<Longrightarrow> Deity_reachable (Deity_offer d ty m)"
| pray: "Deity_reachable d \<Longrightarrow> Deity_reachable (Deity_pray d)"
| desecrate: "Deity_reachable d \<Longrightarrow> Deity_reachable (Deity_desecrate d ty)"
| action: "Deity_reachable d \<Longrightarrow> Deity_reachable (Deity_action d aty m)"
| tick: "Deity_reachable d \<Longrightarrow> Deity_reachable (snd (Deity_tick d dt))"
| restore: "Deity_reachable d \<Longrightarrow> Deity_reachable (Deity_deserialize (Deity_serialize d))"

subsection \<open>The specification's own formulas\<close>


text \<open>
  "Re-normalized to sum to 1 (negative components clamped to 0 before normalization; if all
  are non-positive, fall back to a uniform distribution across dimensions)".
\<close>

definition spec_renormalize :: "vec \<Rightarrow> vec" where
  "spec_renormalize v =
     (if list_all (\<lambda>d. v d \<le> 0) DIMENSIONS then (\<lambda>d. 1/6)
      else (\<lambda>d. max 0 (v d) / (\<Sum>d'\<leftarrow>DIMENSIONS. max 0 (v d'))))"

text \<open>
  "Each dimension's value is perturbed by sin(value*1000 + dimensionIndex) * 0.02, clamped
  to [0,1], then the whole vector is re-normalized", the dimensions being indexed in the
  order wrath, serenity, hunger, amusement, sorrow, chaos.
\<close>

fun spec_dimensionIndex :: "dimension \<Rightarrow> real" where
  "spec_dimensionIndex Wrath = 0"
| "spec_dimensionIndex Serenity = 1"
| "spec_dimensionIndex Hunger = 2"
| "spec_dimensionIndex Amusement = 3"
| "spec_dimensionIndex Sorrow = 4"
| "spec_dimensionIndex Chaos = 5"

definition spec_fuzzed :: "vec \<Rightarrow> vec" where
  "spec_fuzzed v =
     spec_renormalize
       (\<lambda>d. max 0 (min 1 (v d + sin (v d * 1000 + spec_dimensionIndex d) * (2/100))))"

text \<open>
  The effective value of an offering as the claim about \<^verbatim>\<open>offer\<close> words it: the value
  defaults to 0.3 and is clamped to \<open>[0, 1]\<close>, the alignment defaults to neutral; times 1.5
  when the alignment is the deity's, times -0.5 when it is neither neutral nor the deity's.
\<close>

definition spec_effectiveValue :: "string \<Rightarrow> meta \<Rightarrow> real" where
  "spec_effectiveValue A m =
     (let clamped = max 0 (min 1 (nullish (m_value m) (3/10)));
          alignment = nullish (m_alignment m) ''neutral''
      in if alignment = A then clamped * (15/10)
         else if alignment \<noteq> ''neutral'' \<and> alignment \<noteq> A then clamped * (- (5/10))
         else clamped)"

subsection \<open>A worshipper who only ever offers\<close>

text \<open>Thirteen default offerings to a default deity, as a caller of the interface makes them.\<close>

definition thirteen_offers :: deity where
  "thirteen_offers = ((\<lambda>d. Deity_offer d None no_meta) ^^ 13) (Deity_new default_opts)"

section \<open>Properties\<close>

subsection \<open>Auxiliary facts\<close>

lemma later_key_None: "later_key None b = b"
  by (cases b) simp_all

lemma spread_no_meta: "spread no_meta m = m"
  by (simp add: spread_def no_meta_def later_key_None)

lemma threshold_power: "underflow_threshold = (1/2) ^ 1075"
  by (simp only: underflow_threshold_def power_one_over)

lemma threshold_lt_half: "underflow_threshold < 1/2"
proof -
  have "(1/2::real) ^ 1075 < (1/2) ^ 1"
    by (rule power_strict_decreasing) simp_all
  then show ?thesis by (simp only: threshold_power power_one_right)
qed

lemma threshold_pos: "0 < underflow_threshold"
  by (simp only: threshold_power zero_less_power half_gt_zero_iff zero_less_one)

lemma one_above_threshold: "(1 \<le> underflow_threshold) = False"
  using threshold_lt_half by simp



lemma foldl_DIMENSIONS:
  "foldl (\<lambda>s d. s + f d) (0::real) DIMENSIONS = f Wrath + f Serenity + f Hunger + f Amusement + f Sorrow + f Chaos"
  by (simp add: DIMENSIONS_def)

lemma sum_list_DIMENSIONS:
  "(\<Sum>d\<leftarrow>DIMENSIONS. f d) = (f Wrath + f Serenity + f Hunger + f Amusement + f Sorrow + f Chaos :: real)"
  by (simp add: DIMENSIONS_def)

lemma normalize_nonneg: "0 \<le> Mood_normalize v d"
  unfolding Mood_normalize_def Let_def foldl_DIMENSIONS
  by (auto simp: DIMENSIONS_def intro!: divide_nonneg_nonneg add_nonneg_nonneg)

lemma normalize_sum: "(\<Sum>d\<leftarrow>DIMENSIONS. Mood_normalize v d) = 1"
proof -
  let ?s = "max 0 (v Wrath) + max 0 (v Serenity) + max 0 (v Hunger) + max 0 (v Amusement) + max 0 (v Sorrow) + max 0 (v Chaos)"
  show ?thesis
  proof (cases "?s = 0")
    case True
    then show ?thesis
      unfolding Mood_normalize_def Let_def foldl_DIMENSIONS sum_list_DIMENSIONS
      by (simp add: DIMENSIONS_def)
  next
    case False
    have "max 0 (v Wrath) / ?s + max 0 (v Serenity) / ?s + max 0 (v Hunger) / ?s + max 0 (v Amusement) / ?s + max 0 (v Sorrow) / ?s + max 0 (v Chaos) / ?s = ?s / ?s"
      by (simp only: add_divide_distrib)
    also have "\<dots> = 1" using False by simp
    finally show ?thesis
      unfolding Mood_normalize_def Let_def foldl_DIMENSIONS sum_list_DIMENSIONS
      using False by simp
  qed
qed

lemma normalize_uniform:
  assumes "\<forall>d. v d \<le> 0"
  shows "Mood_normalize v d = 1/6"
proof -
  have "max 0 (v d') = 0" for d' using assms[THEN spec, of d'] by (simp add: max_def)
  then show ?thesis
    unfolding Mood_normalize_def Let_def foldl_DIMENSIONS
    by (simp add: DIMENSIONS_def)
qed

lemma normalize_fixed:
  assumes "\<forall>d. 0 \<le> v d" "(\<Sum>d\<leftarrow>DIMENSIONS. v d) = 1"
  shows "Mood_normalize v = v"
proof -
  have m: "max 0 (v d') = v d'" for d' using assms(1)[THEN spec, of d'] by (simp add: max_def)
  have s: "v Wrath + v Serenity + v Hunger + v Amusement + v Sorrow + v Chaos = 1"
    using assms(2) by (simp add: sum_list_DIMENSIONS)
  show ?thesis
    unfolding Mood_normalize_def Let_def foldl_DIMENSIONS m s by simp
qed

lemma fromPartial_total: "Mood_fromPartial (\<lambda>d. Some (p d)) = p"
  by (simp add: Mood_fromPartial_def DIMENSIONS_def Let_def)

lemma Mood_restore:
  assumes "\<forall>d. 0 \<le> personality m d" "(\<Sum>d\<leftarrow>DIMENSIONS. personality m d) = 1" "\<not> dirty m"
  shows "Mood_deserialize (Mood_serialize m) = m"
  using assms
  by (cases m)
    (simp add: Mood_deserialize_def Mood_serialize_def Mood_new_def fromPartial_total
      normalize_fixed Let_def)

lemma Mood_reachable_inv:
  assumes "Mood_reachable m"
  shows "(\<forall>d. 0 \<le> personality m d) \<and> (\<Sum>d\<leftarrow>DIMENSIONS. personality m d) = 1 \<and> \<not> dirty m
       \<and> (\<forall>d. 0 \<le> vector m d) \<and> (\<Sum>d\<leftarrow>DIMENSIONS. vector m d) = 1"
  using assms
proof (induction rule: Mood_reachable.induct)
  case (new partial hyst attr)
  show ?case by (simp add: Mood_new_def Let_def normalize_nonneg normalize_sum)
next
  case (resolve m l t)
  then show ?case by (simp add: Mood_resolve_def normalize_nonneg normalize_sum)
next
  case (restore m)
  then show ?case by (simp add: Mood_restore)
qed

lemma spec_renormalize_eq: "Mood_normalize v = spec_renormalize v"
proof (cases "\<forall>d. v d \<le> 0")
  case True
  then have "list_all (\<lambda>d. v d \<le> 0) DIMENSIONS" by (simp add: list_all_iff)
  then show ?thesis using True by (auto simp: spec_renormalize_def normalize_uniform)
next
  case False
  then obtain d0 where d0: "0 < v d0" by (auto simp: not_le)
  have l: "\<not> list_all (\<lambda>d. v d \<le> 0) DIMENSIONS"
    using d0 by (cases d0) (auto simp: DIMENSIONS_def)
  have nn: "0 \<le> max 0 (v d)" for d by simp
  have "0 < max 0 (v d0)" using d0 by simp
  then have pos: "0 < max 0 (v Wrath) + max 0 (v Serenity) + max 0 (v Hunger) + max 0 (v Amusement) + max 0 (v Sorrow) + max 0 (v Chaos)"
    using nn[of Wrath] nn[of Serenity] nn[of Hunger] nn[of Amusement] nn[of Sorrow] nn[of Chaos]
    by (cases d0; hypsubst; linarith)
  show ?thesis
    unfolding Mood_normalize_def spec_renormalize_def Let_def foldl_DIMENSIONS sum_list_DIMENSIONS
    using l pos by simp
qed

lemma indexOf_DIMENSIONS: "real_of_int (indexOf DIMENSIONS d) = spec_dimensionIndex d"
  by (cases d) (simp_all add: DIMENSIONS_def)




lemma recent_positive:
  assumes "0 < n"
  shows "Ledger_recent l n = rev (drop (length (l_entries l) - nat n) (l_entries l))"
proof (cases "n \<le> int (length (l_entries l))")
  case True
  then have "nat (int (length (l_entries l)) - n) = length (l_entries l) - nat n"
    using assms by linarith
  then show ?thesis
    using assms True by (simp add: Ledger_recent_def slice_from_def Let_def max_def)
next
  case False
  then have "length (l_entries l) - nat n = 0" by linarith
  then show ?thesis
    using assms False by (simp add: Ledger_recent_def slice_from_def Let_def max_def)
qed

lemma count_key_same:
  "\<forall>y\<in>set w. y = x \<Longrightarrow> foldl (\<lambda>cs t. count_key t cs) [(x, k)] w = [(x, k + length w)]"
  by (induction w arbitrary: k) simp_all

lemma slice_from_nonempty: "xs \<noteq> [] \<Longrightarrow> s < 0 \<Longrightarrow> slice_from s xs \<noteq> []"
  by (auto simp: slice_from_def Let_def max_def)

lemma set_slice_from: "set (slice_from s xs) \<subseteq> set xs"
  by (simp add: slice_from_def Let_def set_drop_subset)

lemma predict_same:
  assumes "history s \<noteq> []" "\<forall>y\<in>set (history s). y = x" "0 < seqLen s"
  shows "lastPrediction (Supplicant_predict s) = Some x"
proof -
  let ?w = "slice_from (- seqLen s) (history s)"
  have ne: "?w \<noteq> []" using assms(1,3) by (simp add: slice_from_nonempty)
  have al: "\<forall>y\<in>set ?w. y = x" using assms(2) set_slice_from[of "- seqLen s" "history s"] by blast
  from ne obtain y ys where w: "?w = y # ys" by (cases ?w) auto
  with al have y: "y = x" and ys: "\<forall>y\<in>set ys. y = x" by auto
  show ?thesis
    unfolding Supplicant_predict_def Let_def w y
    by (simp add: count_key_same[OF ys])
qed

lemma predict_fields:
  "seqLen (Supplicant_predict s) = seqLen s" "history (Supplicant_predict s) = history s"
  "totalInteractions (Supplicant_predict s) = totalInteractions s"
  "correctPredictions (Supplicant_predict s) = correctPredictions s"
  by (simp_all add: Supplicant_predict_def Let_def)

lemma record_as_predict:
  "\<exists>s6. snd (Supplicant_record s ty) = Supplicant_predict s6
        \<and> seqLen s6 = seqLen s
        \<and> history s6 = (if int (length (history s @ [ty])) > seqLen s * 3
                         then slice_from (- seqLen s * 2) (history s @ [ty]) else history s @ [ty])
        \<and> totalInteractions s6 = Suc (totalInteractions s)
        \<and> correctPredictions s6 = (if lastPrediction s = Some ty then Suc (correctPredictions s)
                                     else correctPredictions s)"
  unfolding Supplicant_record_def Let_def snd_conv
  by (intro exI conjI, rule refl) simp_all

lemma signal_of_record:
  "fst (Supplicant_record s ty) =
     \<lparr> predicted = lastPrediction s,
       surprised = (lastPrediction s \<noteq> None \<and> lastPrediction s \<noteq> Some ty) \<rparr>"
  by (simp add: Supplicant_record_def Let_def)

lemma offers_keep:
  assumes "seqLen s = 10" "\<forall>y\<in>set (history s). y = ''offer''"
  shows "seqLen (snd (Supplicant_record s ''offer'')) = 10
       \<and> history (snd (Supplicant_record s ''offer'')) \<noteq> []
       \<and> (\<forall>y\<in>set (history (snd (Supplicant_record s ''offer''))). y = ''offer'')
       \<and> lastPrediction (snd (Supplicant_record s ''offer'')) = Some ''offer''
       \<and> totalInteractions (snd (Supplicant_record s ''offer'')) = Suc (totalInteractions s)
       \<and> correctPredictions (snd (Supplicant_record s ''offer'')) =
           (if lastPrediction s = Some ''offer'' then Suc (correctPredictions s) else correctPredictions s)"
proof -
  obtain s6 where s6: "snd (Supplicant_record s ''offer'') = Supplicant_predict s6"
    "seqLen s6 = seqLen s"
    "history s6 = (if int (length (history s @ [''offer''])) > seqLen s * 3
                   then slice_from (- seqLen s * 2) (history s @ [''offer'']) else history s @ [''offer''])"
    "totalInteractions s6 = Suc (totalInteractions s)"
    "correctPredictions s6 = (if lastPrediction s = Some ''offer'' then Suc (correctPredictions s)
                                     else correctPredictions s)"
    using record_as_predict[of s "''offer''"] by blast
  have ne: "history s6 \<noteq> []"
    unfolding s6(3) using assms(1) by (simp add: slice_from_nonempty)
  have "set (history s6) \<subseteq> set (history s @ [''offer''])"
    unfolding s6(3) using set_slice_from[of "- seqLen s * 2" "history s @ [''offer'']"] by simp
  then have al: "\<forall>y\<in>set (history s6). y = ''offer''" using assms(2) by auto
  have lp: "lastPrediction (Supplicant_predict s6) = Some ''offer''"
    using ne al by (rule predict_same) (simp add: s6(2) assms(1))
  have f: "seqLen (Supplicant_predict s6) = 10"
    "totalInteractions (Supplicant_predict s6) = Suc (totalInteractions s)"
    "correctPredictions (Supplicant_predict s6) =
       (if lastPrediction s = Some ''offer'' then Suc (correctPredictions s) else correctPredictions s)"
    by (simp_all add: predict_fields s6(2,4,5) assms(1))
  have h: "history (Supplicant_predict s6) = history s6" by (simp add: predict_fields)
  show ?thesis
    unfolding s6(1) h using ne al lp f by blast
qed

lemma modulate_fields:
  "d_supplicant (Deity_modulateFromSurprise d sg) = d_supplicant d"
  "d_mood (Deity_modulateFromSurprise d sg) = d_mood d"
  "d_listeners (Deity_modulateFromSurprise d sg) = d_listeners d"
  "d_favorMap (Deity_modulateFromSurprise d sg) = d_favorMap d"
  "d_tick (Deity_modulateFromSurprise d sg) = d_tick d"
  "d_alignment (Deity_modulateFromSurprise d sg) = d_alignment d"
  "d_name (Deity_modulateFromSurprise d sg) = d_name d"
  "d_thresholds (Deity_modulateFromSurprise d sg) = d_thresholds d"
  "d_neglectThreshold (Deity_modulateFromSurprise d sg) = d_neglectThreshold d"
  "d_prevDominant (Deity_modulateFromSurprise d sg) = d_prevDominant d"
  by (simp_all add: Deity_modulateFromSurprise_def)

lemma interaction_fields:
  "d_mood (Deity_offer d ty m) = d_mood d" "d_listeners (Deity_offer d ty m) = d_listeners d"
  "d_favorMap (Deity_offer d ty m) = d_favorMap d" "d_tick (Deity_offer d ty m) = d_tick d"
  "d_mood (Deity_pray d) = d_mood d" "d_listeners (Deity_pray d) = d_listeners d"
  "d_favorMap (Deity_pray d) = d_favorMap d" "d_tick (Deity_pray d) = d_tick d"
  "d_mood (Deity_desecrate d ty) = d_mood d" "d_listeners (Deity_desecrate d ty) = d_listeners d"
  "d_favorMap (Deity_desecrate d ty) = d_favorMap d" "d_tick (Deity_desecrate d ty) = d_tick d"
  "d_mood (Deity_action d aty m) = d_mood d" "d_listeners (Deity_action d aty m) = d_listeners d"
  "d_favorMap (Deity_action d aty m) = d_favorMap d" "d_tick (Deity_action d aty m) = d_tick d"
  by (simp_all add: Deity_offer_def Deity_pray_def Deity_desecrate_def Deity_action_def Let_def
      modulate_fields)

lemma checkEvents_fields:
  "d_mood (snd (Deity_checkEvents d)) = d_mood d"
  "d_listeners (snd (Deity_checkEvents d)) = d_listeners d"
  "d_favorMap (snd (Deity_checkEvents d)) = d_favorMap d"
  "d_tick (snd (Deity_checkEvents d)) = d_tick d"
  "d_ledger (snd (Deity_checkEvents d)) = d_ledger d"
  "d_supplicant (snd (Deity_checkEvents d)) = d_supplicant d"
  by (simp_all add: Deity_checkEvents_def Let_def)

lemma tick_step_fields:
  "d_listeners (snd (tick_step d)) = d_listeners d"
  "d_favorMap (snd (tick_step d)) = d_favorMap d"
  "d_tick (snd (tick_step d)) = d_tick d + 1"
  by (simp_all add: tick_step_def Let_def checkEvents_fields)

lemma tick_step_ledger:
  "d_ledger (snd (tick_step d)) =
     (let l1 = Ledger_advanceTick (d_ledger d) 1
      in if since_gt (Math_min (Math_min (Ledger_ticksSinceLast l1 ''offer'')
                                 (Ledger_ticksSinceLast l1 ''pray''))
                         (Ledger_ticksSinceLast l1 ''desecrate''))
              (d_neglectThreshold d)
         then Ledger_record l1 ''neglect'' (no_meta\<lparr> m_synthetic := Some True \<rparr>)
         else l1)"
  by (simp add: tick_step_def Let_def checkEvents_fields)

lemma tick_step_mood:
  "d_mood (snd (tick_step d)) = Mood_resolve (d_mood d) (d_ledger (snd (tick_step d))) (d_tick d + 1)"
  unfolding tick_step_ledger
  by (simp add: tick_step_def Let_def checkEvents_fields)


lemma map_add_same: "m ++ m ++ f = m ++ f"
  by (rule ext) (simp add: map_add_def split: option.splits)

lemma new_listeners: "dom (d_listeners (Deity_new opts)) = set EVENTS"
  by (auto simp: Deity_new_def EVENTS_def)

lemma new_fields:
  "d_mood (Deity_new opts) = Mood_new (o_personality opts) (o_hysteresis opts) (o_attractorStrength opts)"
  "d_favorMap (Deity_new opts) = default_favorMap ++ o_favorMap opts"
  "d_tick (Deity_new opts) = 0"
  by (simp_all add: Deity_new_def)

lemma new_last: "lastResolvedTick (Mood_new p h a) = - 1"
  by (simp add: Mood_new_def Let_def)

lemma Ledger_restore: "Ledger_deserialize (Ledger_serialize l) = l"
  by (cases l) (simp add: Ledger_deserialize_def Ledger_serialize_def Ledger_new_def spread_no_meta
      comp_def)

lemma Supplicant_restore: "Supplicant_deserialize (Supplicant_serialize s) = s"
  by (cases s) (simp add: Supplicant_deserialize_def Supplicant_serialize_def Supplicant_new_def)

lemma resolve_last: "lastResolvedTick (Mood_resolve m l t) = t"
  by (simp add: Mood_resolve_def)

lemma restore_fields:
  "d_mood (Deity_deserialize (Deity_serialize d)) = Mood_deserialize (Mood_serialize (d_mood d))"
  "d_listeners (Deity_deserialize (Deity_serialize d)) = d_listeners (Deity_new default_opts)"
  "d_favorMap (Deity_deserialize (Deity_serialize d)) = default_favorMap ++ d_favorMap d"
  "d_tick (Deity_deserialize (Deity_serialize d)) = d_tick d"
  "d_ledger (Deity_deserialize (Deity_serialize d)) = d_ledger d"
  "d_supplicant (Deity_deserialize (Deity_serialize d)) = d_supplicant d"
  by (simp_all add: Deity_deserialize_def Deity_serialize_def Deity_new_def default_opts_def
      Ledger_restore Supplicant_restore)

lemma on_fields:
  "d_mood (snd (Deity_on d event fn)) = d_mood d"
  "d_favorMap (snd (Deity_on d event fn)) = d_favorMap d"
  "d_tick (snd (Deity_on d event fn)) = d_tick d"
  "dom (d_listeners (snd (Deity_on d event fn))) = dom (d_listeners d)"
  "d_mood (Deity_unsubscribe d event fn) = d_mood d"
  "d_favorMap (Deity_unsubscribe d event fn) = d_favorMap d"
  "d_tick (Deity_unsubscribe d event fn) = d_tick d"
  "dom (d_listeners (Deity_unsubscribe d event fn)) = dom (d_listeners d)"
  by (auto simp: Deity_on_def Deity_unsubscribe_def split: option.splits)

lemma Deity_tick_inv:
  assumes "Mood_reachable (d_mood d)" "lastResolvedTick (d_mood d) \<le> d_tick d"
  shows "Mood_reachable (d_mood (snd (Deity_tick d n)))
       \<and> lastResolvedTick (d_mood (snd (Deity_tick d n))) \<le> d_tick (snd (Deity_tick d n))
       \<and> d_listeners (snd (Deity_tick d n)) = d_listeners d
       \<and> d_favorMap (snd (Deity_tick d n)) = d_favorMap d"
  using assms
proof (induction n arbitrary: d)
  case 0
  then show ?case by simp
next
  case (Suc n)
  have r: "Mood_reachable (d_mood (snd (tick_step d)))"
    unfolding tick_step_mood using Suc.prems(1) by (rule Mood_reachable.resolve)
  have t: "lastResolvedTick (d_mood (snd (tick_step d))) \<le> d_tick (snd (tick_step d))"
    unfolding tick_step_mood by (simp add: resolve_last tick_step_fields)
  from Suc.IH[OF r t] show ?case by (simp add: Let_def tick_step_fields)
qed

lemma Deity_reachable_inv:
  assumes "Deity_reachable d"
  shows "Mood_reachable (d_mood d) \<and> dom (d_listeners d) = set EVENTS
       \<and> default_favorMap ++ d_favorMap d = d_favorMap d
       \<and> lastResolvedTick (d_mood d) \<le> d_tick d"
  using assms
proof (induction rule: Deity_reachable.induct)
  case (new opts)
  show ?case
    by (simp add: new_listeners new_fields Mood_reachable.new map_add_same new_last)
next
  case (on d event fn)
  then show ?case by (simp add: on_fields)
next
  case (unsubscribe d event fn)
  then show ?case by (simp add: on_fields)
next
  case (offer d ty m)
  then show ?case by (simp add: interaction_fields)
next
  case (pray d)
  then show ?case by (simp add: interaction_fields)
next
  case (desecrate d ty)
  then show ?case by (simp add: interaction_fields)
next
  case (action d aty m)
  then show ?case by (simp add: interaction_fields)
next
  case (tick d dt)
  then show ?case using Deity_tick_inv[of d dt] by simp
next
  case (restore d)
  then have "Mood_reachable (Mood_deserialize (Mood_serialize (d_mood d)))"
    by (simp add: Mood_reachable.restore)
  moreover have "lastResolvedTick (Mood_deserialize (Mood_serialize (d_mood d))) = lastResolvedTick (d_mood d)"
    by (simp add: Mood_deserialize_def Mood_serialize_def)
  ultimately show ?case using restore
    by (simp add: restore_fields new_listeners map_add_same)
qed

lemma serialize_entries: "ld_entries (Ledger_serialize l) = l_entries l"
  by (simp add: Ledger_serialize_def spread_no_meta)

lemma Deity_restore:
  assumes "Mood_deserialize (Mood_serialize (d_mood x)) = d_mood x"
    "default_favorMap ++ d_favorMap x = d_favorMap x"
  shows "Deity_deserialize (Deity_serialize x) = x\<lparr> d_listeners := d_listeners (Deity_new default_opts) \<rparr>"
  using assms
  by (cases x) (simp add: Deity_deserialize_def Deity_serialize_def Deity_new_def default_opts_def
      Ledger_restore Supplicant_restore)


lemma new_ledger: "d_ledger (Deity_new opts) = Ledger_new (o_decayHalfLife opts)"
  "d_neglectThreshold (Deity_new opts) = nullish (o_neglectThreshold opts) 3"
  by (simp_all add: Deity_new_def)

lemma modulate_entries:
  "l_entries (d_ledger (Deity_modulateFromSurprise d sg)) =
     l_entries (d_ledger d) @
       (if predicted sg = None then []
        else if surprised sg then
          [\<lparr> e_type = ''offer'', e_tick = l_tick (d_ledger d),
             e_meta = no_meta\<lparr> m_offeringType := Some ''_surprise_bonus'', m_synthetic := Some True \<rparr> \<rparr>]
        else if Supplicant_omniscient (d_supplicant d) then
          [\<lparr> e_type = ''neglect'', e_tick = l_tick (d_ledger d),
             e_meta = no_meta\<lparr> m_synthetic := Some True, m_reason := Some ''predictability'' \<rparr> \<rparr>]
        else [])"
  by (simp add: Deity_modulateFromSurprise_def Ledger_record_def)

lemma offerImpact_synthetic:
  "offerImpact (Ledger_record l ''offer''
      (no_meta\<lparr> m_offeringType := Some ''_surprise_bonus'', m_synthetic := Some True \<rparr>))
   = offerImpact l"
proof -
  have w: "Ledger_weight (Ledger_record l ty m) e = Ledger_weight l e" for e :: entry and ty m
    by (simp add: Ledger_weight_def Ledger_record_def)
  show ?thesis
    unfolding offerImpact_def Ledger_ofType_def w
    by (simp add: Ledger_record_def)
qed

lemma offer_supplicant:
  "d_supplicant (Deity_offer d ty m) = snd (Supplicant_record (d_supplicant d) ''offer'')"
  by (simp add: Deity_offer_def Let_def modulate_fields)

lemma new_supplicant: "d_supplicant (Deity_new opts) = Supplicant_new (o_sequenceLength opts)"
  by (simp add: Deity_new_def)

lemma offers_chain:
  fixes S :: "nat \<Rightarrow> supplicant"
  assumes S0: "S 0 = Supplicant_new None"
    and SS: "\<And>n. S (Suc n) = snd (Supplicant_record (S n) ''offer'')"
  shows "seqLen (S (Suc n)) = 10 \<and> (\<forall>y\<in>set (history (S (Suc n))). y = ''offer'')
       \<and> lastPrediction (S (Suc n)) = Some ''offer''
       \<and> totalInteractions (S (Suc n)) = Suc n \<and> correctPredictions (S (Suc n)) = n"
proof (induction n)
  case 0
  have s: "seqLen (S 0) = 10" "\<forall>y\<in>set (history (S 0)). y = ''offer''"
    by (simp_all add: S0 Supplicant_new_def DEFAULT_SEQUENCE_LENGTH_def)
  have t: "lastPrediction (S 0) \<noteq> Some ''offer''" "totalInteractions (S 0) = 0"
    "correctPredictions (S 0) = 0"
    by (simp_all add: S0 Supplicant_new_def)
  note k = offers_keep[OF s, folded SS]
  have "correctPredictions (S (Suc 0)) = 0"
    using k t(1,3) by simp
  moreover have "totalInteractions (S (Suc 0)) = Suc 0"
    using k t(2) by simp
  ultimately show ?case using k by (elim conjE) (intro conjI, assumption+)
next
  case (Suc n)
  note a = Suc[THEN conjunct1]
  note b = Suc[THEN conjunct2, THEN conjunct1]
  note c = Suc[THEN conjunct2, THEN conjunct2, THEN conjunct1]
    Suc[THEN conjunct2, THEN conjunct2, THEN conjunct2, THEN conjunct1]
    Suc[THEN conjunct2, THEN conjunct2, THEN conjunct2, THEN conjunct2]
  note k = offers_keep[OF a b, folded SS]
  have "correctPredictions (S (Suc (Suc n))) = Suc n"
    using k c(1,3) by simp
  moreover have "totalInteractions (S (Suc (Suc n))) = Suc (Suc n)"
    using k c(2) by simp
  ultimately show ?case using k by (elim conjE) (intro conjI, assumption+)
qed

lemma thirteen_offers_supplicant:
  "seqLen (d_supplicant thirteen_offers) = 10"
  "lastPrediction (d_supplicant thirteen_offers) = Some ''offer''"
  "totalInteractions (d_supplicant thirteen_offers) = 13"
  "correctPredictions (d_supplicant thirteen_offers) = 12"
proof -
  define S where "S n = d_supplicant (((\<lambda>d. Deity_offer d None no_meta) ^^ n) (Deity_new default_opts))" for n
  have S0: "S 0 = Supplicant_new None"
    by (simp add: S_def new_supplicant default_opts_def)
  have SS: "S (Suc n) = snd (Supplicant_record (S n) ''offer'')" for n
    by (simp add: S_def offer_supplicant)
  have e: "d_supplicant thirteen_offers = S (Suc 12)"
    by (simp add: S_def thirteen_offers_def)
  note k = offers_chain[of S 12, OF S0 SS, folded e]
  show "seqLen (d_supplicant thirteen_offers) = 10"
    "lastPrediction (d_supplicant thirteen_offers) = Some ''offer''"
    "totalInteractions (d_supplicant thirteen_offers) = 13"
    "correctPredictions (d_supplicant thirteen_offers) = 12"
    using k by simp_all
qed

lemma record_counts:
  "totalInteractions (snd (Supplicant_record s ty)) = Suc (totalInteractions s)"
  "correctPredictions (snd (Supplicant_record s ty)) =
     (if lastPrediction s = Some ty then Suc (correctPredictions s) else correctPredictions s)"
  by (simp_all add: Supplicant_record_def Let_def predict_fields)

lemma pray_supplicant:
  "d_supplicant (Deity_pray d) = snd (Supplicant_record (d_supplicant d) ''pray'')"
  by (simp add: Deity_pray_def Let_def modulate_fields)

lemma pray_entries_surprised:
  assumes "lastPrediction (d_supplicant d) = Some ''offer''"
  shows "l_entries (d_ledger (Deity_pray d)) =
           l_entries (d_ledger d) @
             [\<lparr> e_type = ''pray'', e_tick = l_tick (d_ledger d), e_meta = no_meta \<rparr>,
              \<lparr> e_type = ''offer'', e_tick = l_tick (d_ledger d),
                e_meta = no_meta\<lparr> m_offeringType := Some ''_surprise_bonus'', m_synthetic := Some True \<rparr> \<rparr>]"
  using assms
  by (simp add: Deity_pray_def Let_def modulate_entries signal_of_record Ledger_record_def)

lemma on_unknown_event:
  assumes "Deity_reachable d" "event \<notin> set EVENTS"
  shows "\<exists>e. Deity_on d event fn = (Some e, d)"
proof -
  from Deity_reachable_inv[OF assms(1)] have "dom (d_listeners d) = set EVENTS" by simp
  with assms(2) have "d_listeners d event = None" by blast
  then show ?thesis by (simp add: Deity_on_def)
qed

lemma on_known_event:
  assumes "Deity_reachable d" "event \<in> set EVENTS"
  shows "fst (Deity_on d event fn) = None"
proof -
  from Deity_reachable_inv[OF assms(1)] have "dom (d_listeners d) = set EVENTS" by simp
  with assms(2) obtain fs where "d_listeners d event = Some fs" by blast
  then show ?thesis by (simp add: Deity_on_def)
qed

lemma ex_action_ledger:
  "d_ledger (Deity_action (Deity_new default_opts) ''protect'' (no_meta\<lparr> m_magnitude := Some 50 \<rparr>))
   = \<lparr> l_halfLife = 100,
       l_entries = [\<lparr> e_type = ''action'', e_tick = 0,
                      e_meta = no_meta\<lparr> m_actionType := Some ''protect'', m_magnitude := Some 50,
                                         m_favor := Some (3/10) \<rparr> \<rparr>],
       l_tick = 0 \<rparr>"
  by (simp add: Deity_action_def Let_def Deity_new_def default_opts_def default_favorMap_def
      Ledger_new_def Ledger_record_def spread_def no_meta_def DEFAULT_HALF_LIFE_def)

lemma offer_entries:
  "\<exists>rest. l_entries (d_ledger (Deity_offer d ty m)) =
     l_entries (d_ledger d) @
       \<lparr> e_type = ''offer'', e_tick = l_tick (d_ledger d),
         e_meta = spread (no_meta\<lparr>
           m_offeringType := Some (nullish ty ''generic''),
           m_value := Some (max 0 (min 1 (nullish (m_value m) (3/10)))),
           m_effectiveValue := Some
             (if d_alignment d \<noteq> [] then
                (if nullish (m_alignment m) ''neutral'' = d_alignment d
                 then max 0 (min 1 (nullish (m_value m) (3/10))) * (15/10)
                 else if nullish (m_alignment m) ''neutral'' \<noteq> ''neutral''
                         \<and> nullish (m_alignment m) ''neutral'' \<noteq> d_alignment d
                 then max 0 (min 1 (nullish (m_value m) (3/10))) * (- (5/10))
                 else max 0 (min 1 (nullish (m_value m) (3/10))))
              else max 0 (min 1 (nullish (m_value m) (3/10)))),
           m_alignment := Some (nullish (m_alignment m) ''neutral'') \<rparr>) m \<rparr> # rest"
  unfolding Deity_offer_def Let_def modulate_entries
  by (simp add: Ledger_record_def)

lemma spread_effectiveValue:
  "m_effectiveValue (spread a b) = later_key (m_effectiveValue a) (m_effectiveValue b)"
  by (simp add: spread_def)

lemma query_unchanged:
  assumes "d_mood d' = d_mood d" "d_tick d' = d_tick d"
  shows "Deity_query d' = Deity_query d" "Deity_queryPrecise d' = Deity_queryPrecise d"
  using assms by (simp_all add: Deity_query_def Deity_queryPrecise_def)

subsection \<open>What resolve computes\<close>



subsection \<open>Decay of an entry's weight\<close>




subsection \<open>Reading the mood\<close>

text \<open>
  Claim C4. A read assigns nothing, so between two resolutions every call sees the same
  engine, and what it returns is a function of the current vector alone (and, for the
  deity's \<^verbatim>\<open>query\<close>, of the tick counter): the precise read is the vector itself, the
  imprecise read perturbs the value \<open>v\<close> of the dimension of index \<open>i\<close> by
  \<open>sin (v * 1000 + i) * 0.02\<close>, clamps to \<open>[0, 1]\<close> and renormalizes. No clock and no random
  source enters. The interactions recorded between two ticks (offerings, prayers,
  desecrations, actions, subscriptions) leave both reads as they were.
\<close>

theorem query_pure:
  "Mood_query m True = vector m
   \<and> Mood_query m False = spec_fuzzed (vector m)
   \<and> Deity_queryPrecise d = vector (d_mood d)
   \<and> Deity_query d = \<lparr> q_mood = spec_fuzzed (vector (d_mood d)),
                        q_dominant = Mood_dominant (d_mood d), q_tick = d_tick d \<rparr>
   \<and> Deity_query (Deity_offer d ty mt) = Deity_query d
   \<and> Deity_query (Deity_pray d) = Deity_query d
   \<and> Deity_query (Deity_desecrate d ty) = Deity_query d
   \<and> Deity_query (Deity_action d aty mt) = Deity_query d
   \<and> Deity_query (snd (Deity_on d event fn)) = Deity_query d
   \<and> Deity_query (Deity_unsubscribe d event fn) = Deity_query d
   \<and> Deity_queryPrecise (Deity_offer d ty mt) = Deity_queryPrecise d
   \<and> Deity_queryPrecise (Deity_pray d) = Deity_queryPrecise d
   \<and> Deity_queryPrecise (Deity_desecrate d ty) = Deity_queryPrecise d
   \<and> Deity_queryPrecise (Deity_action d aty mt) = Deity_queryPrecise d"
proof -
  have a: "Mood_query m True = vector m" "Mood_query m False = spec_fuzzed (vector m)" for m
    by (simp_all add: Mood_query_def spec_fuzzed_def spec_renormalize_eq indexOf_DIMENSIONS Let_def)
  have b: "Deity_queryPrecise d = vector (d_mood d)"
    "Deity_query d = \<lparr> q_mood = spec_fuzzed (vector (d_mood d)),
                        q_dominant = Mood_dominant (d_mood d), q_tick = d_tick d \<rparr>"
    by (simp_all add: Deity_queryPrecise_def Deity_query_def a)
  show ?thesis
    by (intro conjI a b query_unchanged interaction_fields on_fields)
qed

subsection \<open>Snapshots\<close>

text \<open>
  Claim C5. For every reachable deity \<open>x\<close>, \<^verbatim>\<open>deserialize(serialize(x))\<close> is \<open>x\<close> with a
  fresh, empty set of listeners; its \<^verbatim>\<open>query()\<close> equals the original's, hence matches it
  within \<open>1e-3\<close> in every dimension. The snapshot holds the ledger's half-life, tick and
  entry list and the mood engine's personality, vector, hysteresis, attractor strength and
  last resolved tick unchanged, and deserializing gives the same ledger and the same mood
  engine back.
\<close>

theorem serialize_roundtrip:
  assumes "Deity_reachable x"
  shows "Deity_deserialize (Deity_serialize x) = x\<lparr> d_listeners := d_listeners (Deity_new default_opts) \<rparr>
       \<and> Deity_query (Deity_deserialize (Deity_serialize x)) = Deity_query x
       \<and> (\<forall>dim. \<bar>q_mood (Deity_query (Deity_deserialize (Deity_serialize x))) dim
                  - q_mood (Deity_query x) dim\<bar> < 1/1000)
       \<and> Ledger_deserialize (dd_ledger (Deity_serialize x)) = d_ledger x
       \<and> ld_halfLife (dd_ledger (Deity_serialize x)) = l_halfLife (d_ledger x)
       \<and> ld_tick (dd_ledger (Deity_serialize x)) = l_tick (d_ledger x)
       \<and> ld_entries (dd_ledger (Deity_serialize x)) = l_entries (d_ledger x)
       \<and> Mood_deserialize (dd_mood (Deity_serialize x)) = d_mood x
       \<and> md_personality (dd_mood (Deity_serialize x)) = personality (d_mood x)
       \<and> md_vector (dd_mood (Deity_serialize x)) = vector (d_mood x)
       \<and> md_hysteresis (dd_mood (Deity_serialize x)) = hysteresis (d_mood x)
       \<and> md_attractorStrength (dd_mood (Deity_serialize x)) = attractorStrength (d_mood x)
       \<and> md_lastResolvedTick (dd_mood (Deity_serialize x)) = lastResolvedTick (d_mood x)"
proof -
  note inv = Deity_reachable_inv[OF assms]
  from inv have "Mood_reachable (d_mood x)" by simp
  from Mood_reachable_inv[OF this]
  have m: "Mood_deserialize (Mood_serialize (d_mood x)) = d_mood x"
    by (intro Mood_restore) simp_all
  from inv have f: "default_favorMap ++ d_favorMap x = d_favorMap x" by simp
  have r: "Deity_deserialize (Deity_serialize x) = x\<lparr> d_listeners := d_listeners (Deity_new default_opts) \<rparr>"
    using m f by (rule Deity_restore)
  have q: "Deity_query (Deity_deserialize (Deity_serialize x)) = Deity_query x"
    unfolding r by (simp add: Deity_query_def)
  have s: "dd_ledger (Deity_serialize x) = Ledger_serialize (d_ledger x)"
    "dd_mood (Deity_serialize x) = Mood_serialize (d_mood x)"
    by (simp_all add: Deity_serialize_def)
  have l: "ld_halfLife (Ledger_serialize (d_ledger x)) = l_halfLife (d_ledger x)"
    "ld_tick (Ledger_serialize (d_ledger x)) = l_tick (d_ledger x)"
    by (simp_all add: Ledger_serialize_def)
  have md: "md_personality (Mood_serialize (d_mood x)) = personality (d_mood x)"
    "md_vector (Mood_serialize (d_mood x)) = vector (d_mood x)"
    "md_hysteresis (Mood_serialize (d_mood x)) = hysteresis (d_mood x)"
    "md_attractorStrength (Mood_serialize (d_mood x)) = attractorStrength (d_mood x)"
    "md_lastResolvedTick (Mood_serialize (d_mood x)) = lastResolvedTick (d_mood x)"
    by (simp_all add: Mood_serialize_def)
  show ?thesis
    unfolding s q using r m l md by (simp add: Ledger_restore serialize_entries)
qed

text \<open>
  A deity that received an offering and lived three ticks.
\<close>

theorem serialize_roundtrip_witness:
  "Deity_reachable (snd (Deity_tick (Deity_offer (Deity_new default_opts) (Some ''gold'') no_meta) 3))
   \<and> Deity_query (Deity_deserialize (Deity_serialize
         (snd (Deity_tick (Deity_offer (Deity_new default_opts) (Some ''gold'') no_meta) 3))))
     = Deity_query (snd (Deity_tick (Deity_offer (Deity_new default_opts) (Some ''gold'') no_meta) 3))"
proof -
  have "Deity_reachable (snd (Deity_tick (Deity_offer (Deity_new default_opts) (Some ''gold'') no_meta) 3))"
    by (intro Deity_reachable.tick Deity_reachable.offer Deity_reachable.new)
  from this serialize_roundtrip [OF this] show ?thesis by blast
qed

subsection \<open>One tick at a time\<close>



subsection \<open>Surprise and boredom\<close>

text \<open>
  Claim C7, amended. On a signal with a prediction and \<open>surprised = true\<close> (every surprised
  signal of the repository's predictor carries a prediction) the deity appends exactly one
  synthetic offer entry, which the offering-value signal of the impulse leaves out. On a
  signal with a prediction that is not surprised, when the predictor is omniscient, it
  appends exactly one synthetic neglect entry with the reason \<open>predictability\<close>. On every
  other signal it does nothing; in particular an omniscient predictor that is surprised
  yields the synthetic offer and no neglect entry.
\<close>

theorem surprise_modulation:
  "(predicted sg \<noteq> None \<and> surprised sg \<longrightarrow>
      l_entries (d_ledger (Deity_modulateFromSurprise d sg)) =
        l_entries (d_ledger d) @
          [\<lparr> e_type = ''offer'', e_tick = l_tick (d_ledger d),
             e_meta = no_meta\<lparr> m_offeringType := Some ''_surprise_bonus'', m_synthetic := Some True \<rparr> \<rparr>]
      \<and> offerImpact (d_ledger (Deity_modulateFromSurprise d sg)) = offerImpact (d_ledger d))
   \<and> (predicted sg \<noteq> None \<and> \<not> surprised sg \<and> Supplicant_omniscient (d_supplicant d) \<longrightarrow>
      l_entries (d_ledger (Deity_modulateFromSurprise d sg)) =
        l_entries (d_ledger d) @
          [\<lparr> e_type = ''neglect'', e_tick = l_tick (d_ledger d),
             e_meta = no_meta\<lparr> m_synthetic := Some True, m_reason := Some ''predictability'' \<rparr> \<rparr>])
   \<and> (predicted sg = None \<or> (\<not> surprised sg \<and> \<not> Supplicant_omniscient (d_supplicant d)) \<longrightarrow>
      Deity_modulateFromSurprise d sg = d)
   \<and> (surprised (fst (Supplicant_record s ty)) \<longrightarrow> predicted (fst (Supplicant_record s ty)) \<noteq> None)"
proof (intro conjI impI)
  assume "predicted sg \<noteq> None \<and> surprised sg"
  then show "l_entries (d_ledger (Deity_modulateFromSurprise d sg)) =
        l_entries (d_ledger d) @
          [\<lparr> e_type = ''offer'', e_tick = l_tick (d_ledger d),
             e_meta = no_meta\<lparr> m_offeringType := Some ''_surprise_bonus'', m_synthetic := Some True \<rparr> \<rparr>]"
    by (simp add: modulate_entries)
next
  assume "predicted sg \<noteq> None \<and> surprised sg"
  then show "offerImpact (d_ledger (Deity_modulateFromSurprise d sg)) = offerImpact (d_ledger d)"
    by (simp add: Deity_modulateFromSurprise_def offerImpact_synthetic)
next
  assume "predicted sg \<noteq> None \<and> \<not> surprised sg \<and> Supplicant_omniscient (d_supplicant d)"
  then show "l_entries (d_ledger (Deity_modulateFromSurprise d sg)) =
        l_entries (d_ledger d) @
          [\<lparr> e_type = ''neglect'', e_tick = l_tick (d_ledger d),
             e_meta = no_meta\<lparr> m_synthetic := Some True, m_reason := Some ''predictability'' \<rparr> \<rparr>]"
    by (simp add: modulate_entries)
next
  assume "predicted sg = None \<or> (\<not> surprised sg \<and> \<not> Supplicant_omniscient (d_supplicant d))"
  then show "Deity_modulateFromSurprise d sg = d"
    by (auto simp: Deity_modulateFromSurprise_def)
next
  assume "surprised (fst (Supplicant_record s ty))"
  then show "predicted (fst (Supplicant_record s ty)) \<noteq> None"
    by (simp add: signal_of_record)
qed

text \<open>
  A surprised signal on a fresh deity; an expected offering after thirteen offerings; a
  signal without prediction; the predictor's own signal for a prayer after thirteen
  offerings.
\<close>

theorem surprise_modulation_witness:
  "l_entries (d_ledger (Deity_modulateFromSurprise (Deity_new default_opts)
       \<lparr> predicted = Some ''offer'', surprised = True \<rparr>)) =
     [\<lparr> e_type = ''offer'', e_tick = 0,
        e_meta = no_meta\<lparr> m_offeringType := Some ''_surprise_bonus'', m_synthetic := Some True \<rparr> \<rparr>]
   \<and> Supplicant_omniscient (d_supplicant thirteen_offers)
   \<and> map e_type (drop (length (l_entries (d_ledger thirteen_offers)))
        (l_entries (d_ledger (Deity_modulateFromSurprise thirteen_offers
           \<lparr> predicted = Some ''offer'', surprised = False \<rparr>)))) = [''neglect'']
   \<and> Deity_modulateFromSurprise (Deity_new default_opts) \<lparr> predicted = None, surprised = False \<rparr>
       = Deity_new default_opts
   \<and> surprised (fst (Supplicant_record (d_supplicant thirteen_offers) ''pray''))
   \<and> predicted (fst (Supplicant_record (d_supplicant thirteen_offers) ''pray'')) = Some ''offer''"
proof -
  have o: "Supplicant_omniscient (d_supplicant thirteen_offers)"
    by (simp add: Supplicant_omniscient_def thirteen_offers_supplicant)
  have s: "surprised (fst (Supplicant_record (d_supplicant thirteen_offers) ''pray''))"
    "predicted (fst (Supplicant_record (d_supplicant thirteen_offers) ''pray'')) = Some ''offer''"
    by (simp_all add: signal_of_record thirteen_offers_supplicant)
  have n: "l_entries (d_ledger (Deity_new default_opts)) = []" "l_tick (d_ledger (Deity_new default_opts)) = 0"
    by (simp_all add: new_ledger Ledger_new_def)
  show ?thesis
    using surprise_modulation [of "\<lparr> predicted = Some ''offer'', surprised = True \<rparr>"
        "Deity_new default_opts" "d_supplicant thirteen_offers" "''pray''"]
      surprise_modulation [of "\<lparr> predicted = Some ''offer'', surprised = False \<rparr>"
        thirteen_offers "d_supplicant thirteen_offers" "''pray''"]
      surprise_modulation [of "\<lparr> predicted = None, surprised = False \<rparr>"
        "Deity_new default_opts" "d_supplicant thirteen_offers" "''pray''"]
      o s n
    by simp
qed

text \<open>
  After thirteen offerings a prayer surprises the predictor, which is right 12 times out
  of 14 and therefore omniscient: the prayer is followed by a synthetic offer, and no
  neglect entry is recorded.
\<close>

theorem surprise_counterexample:
  "Supplicant_omniscient (d_supplicant (Deity_pray thirteen_offers))
   \<and> map e_type (drop (length (l_entries (d_ledger thirteen_offers)))
                   (l_entries (d_ledger (Deity_pray thirteen_offers)))) = [''pray'', ''offer'']"
proof -
  have "Supplicant_omniscient (d_supplicant (Deity_pray thirteen_offers))"
    by (simp add: Supplicant_omniscient_def pray_supplicant record_counts thirteen_offers_supplicant)
  then show ?thesis
    by (simp add: pray_entries_surprised thirteen_offers_supplicant)
qed

subsection \<open>Tolerant inputs\<close>

text \<open>
  Claim C8. Out-of-range action magnitudes should be clamped to \<open>[0, 1]\<close>. The source
  computes the clamped magnitude and then spreads the caller's metadata over it, so the
  recorded entry carries the caller's magnitude: reporting \<^verbatim>\<open>protect\<close> with magnitude 50 to
  a default deity records 50, and the serenity impulse of the next resolution is 0.42
  where a magnitude of 1 would give -0.021.
\<close>

theorem action_magnitude_unclamped:
  "m_magnitude (e_meta (hd (l_entries (d_ledger
      (Deity_action (Deity_new default_opts) ''protect'' (no_meta\<lparr> m_magnitude := Some 50 \<rparr>))))))
     = Some 50
   \<and> Mood_computeImpulse (d_ledger
      (Deity_action (Deity_new default_opts) ''protect'' (no_meta\<lparr> m_magnitude := Some 50 \<rparr>)))
      Serenity = 42/100"
  unfolding ex_action_ledger
  by (simp add: Mood_computeImpulse_def impulse_repetition_def
      impulse_neglect_def impulse_desecration_def impulse_prayer_def impulse_actions_def impulse_variety_def
      impulse_offers_def offerImpact_def Ledger_ofType_def Ledger_weightedCount_def Ledger_weight_def
      Ledger_currentStreak_def Ledger_ticksSinceLast_def Ledger_variety_def Ledger_size_def Ledger_recent_def
      slice_from_def bump_def sub_kind_def no_meta_def Let_def action_impulse_def
      one_above_threshold)

subsection \<open>The most recent entries\<close>

text \<open>
  Claim C9. \<^verbatim>\<open>recent(n)\<close> should return the last \<open>n\<close> entries, newest first. For \<open>n = 0\<close>
  the source evaluates \<^verbatim>\<open>slice(-0)\<close>, which is \<^verbatim>\<open>slice(0)\<close>: on a ledger holding one
  entry \<^verbatim>\<open>recent(0)\<close> returns that entry instead of nothing.
\<close>

theorem recent_zero:
  "Ledger_recent (Ledger_record (Ledger_new None) ''pray'' no_meta) 0
     = [\<lparr> e_type = ''pray'', e_tick = 0, e_meta = no_meta \<rparr>]"
  by (simp add: Ledger_recent_def slice_from_def Ledger_record_def Ledger_new_def)

subsection \<open>The effective value of an offering\<close>

text \<open>
  Claim C10, amended. For every \<^verbatim>\<open>offer(type, meta)\<close> whose metadata has no
  \<^verbatim>\<open>effectiveValue\<close> key of its own, the entry recorded by the call is an offer whose
  effective value is: the clamped value, when the deity's alignment is the empty string;
  otherwise the clamped value times 1.5 when the offering's alignment is the deity's,
  times -0.5 when it is neither neutral nor the deity's, and unchanged otherwise. An
  offering of neutral or matching alignment never has a negative effective value.
\<close>

theorem offer_effectiveValue:
  assumes "m_effectiveValue m = None"
  shows "(let e = l_entries (d_ledger (Deity_offer d ty m)) ! length (l_entries (d_ledger d));
              clamped = max 0 (min 1 (nullish (m_value m) (3/10)));
              alignment = nullish (m_alignment m) ''neutral''
          in e_type e = ''offer''
           \<and> m_effectiveValue (e_meta e) =
               Some (if d_alignment d = [] then clamped else spec_effectiveValue (d_alignment d) m)
           \<and> (alignment = ''neutral'' \<or> alignment = d_alignment d \<longrightarrow>
                (\<exists>v. m_effectiveValue (e_meta e) = Some v \<and> 0 \<le> v)))"
proof -
  obtain rest e where
    l: "l_entries (d_ledger (Deity_offer d ty m)) = l_entries (d_ledger d) @ e # rest"
    and e: "e = \<lparr> e_type = ''offer'', e_tick = l_tick (d_ledger d),
         e_meta = spread (no_meta\<lparr>
           m_offeringType := Some (nullish ty ''generic''),
           m_value := Some (max 0 (min 1 (nullish (m_value m) (3/10)))),
           m_effectiveValue := Some
             (if d_alignment d \<noteq> [] then
                (if nullish (m_alignment m) ''neutral'' = d_alignment d
                 then max 0 (min 1 (nullish (m_value m) (3/10))) * (15/10)
                 else if nullish (m_alignment m) ''neutral'' \<noteq> ''neutral''
                         \<and> nullish (m_alignment m) ''neutral'' \<noteq> d_alignment d
                 then max 0 (min 1 (nullish (m_value m) (3/10))) * (- (5/10))
                 else max 0 (min 1 (nullish (m_value m) (3/10))))
              else max 0 (min 1 (nullish (m_value m) (3/10)))),
           m_alignment := Some (nullish (m_alignment m) ''neutral'') \<rparr>) m \<rparr>"
    using offer_entries[of d ty m] by blast
  have n: "l_entries (d_ledger (Deity_offer d ty m)) ! length (l_entries (d_ledger d)) = e"
    unfolding l by simp
  have t: "e_type e = ''offer''" by (simp add: e)
  have c: "0 \<le> max 0 (min 1 (nullish (m_value m) (3/10)))" by simp
  have v: "m_effectiveValue (e_meta e) =
      Some (if d_alignment d = [] then max 0 (min 1 (nullish (m_value m) (3/10)))
            else spec_effectiveValue (d_alignment d) m)"
    by (simp add: e spread_effectiveValue assms spec_effectiveValue_def Let_def)
  have p: "0 \<le> (if d_alignment d = [] then max 0 (min 1 (nullish (m_value m) (3/10)))
            else spec_effectiveValue (d_alignment d) m)"
    if "nullish (m_alignment m) ''neutral'' = ''neutral''
        \<or> nullish (m_alignment m) ''neutral'' = d_alignment d"
    using that c by (auto simp: spec_effectiveValue_def Let_def)
  show ?thesis
    unfolding Let_def n using t v p by simp
qed

text \<open>
  A neutral offering of value 2 to a neutral deity: clamped to 1, then times 1.5.
\<close>

theorem offer_effectiveValue_witness:
  "m_effectiveValue (no_meta\<lparr> m_value := Some 2, m_alignment := Some ''neutral'' \<rparr>) = None
   \<and> m_effectiveValue (e_meta (l_entries (d_ledger (Deity_offer (Deity_new default_opts) (Some ''gold'')
        (no_meta\<lparr> m_value := Some 2, m_alignment := Some ''neutral'' \<rparr>))) ! 0)) = Some (15/10)"
proof -
  have h: "m_effectiveValue (no_meta\<lparr> m_value := Some 2, m_alignment := Some ''neutral'' \<rparr>) = None"
    by (simp add: no_meta_def)
  have a: "d_alignment (Deity_new default_opts) = ''neutral''"
    "length (l_entries (d_ledger (Deity_new default_opts))) = 0"
    by (simp_all add: Deity_new_def default_opts_def Ledger_new_def)
  show ?thesis
    using offer_effectiveValue [OF h, of "Deity_new default_opts" "Some ''gold''"] h
    by (simp add: a Let_def spec_effectiveValue_def)
qed

text \<open>
  A deity whose alignment is the empty string takes a chaotic offering of value 0.8 at
  0.8, not at -0.4; and metadata that brings its own \<^verbatim>\<open>effectiveValue\<close> of 7 overrides
  the computed 0.45.
\<close>

theorem offer_effectiveValue_counterexample:
  "m_effectiveValue (e_meta (hd (l_entries (d_ledger
       (Deity_offer (Deity_new (default_opts\<lparr> o_alignment := Some [] \<rparr>)) None
          (no_meta\<lparr> m_value := Some (8/10), m_alignment := Some ''chaotic'' \<rparr>))))))
     \<noteq> Some (spec_effectiveValue (d_alignment (Deity_new (default_opts\<lparr> o_alignment := Some [] \<rparr>)))
          (no_meta\<lparr> m_value := Some (8/10), m_alignment := Some ''chaotic'' \<rparr>))
   \<and> m_effectiveValue (e_meta (hd (l_entries (d_ledger
       (Deity_offer (Deity_new default_opts) None (no_meta\<lparr> m_effectiveValue := Some 7 \<rparr>))))))
     \<noteq> Some (spec_effectiveValue (d_alignment (Deity_new default_opts))
          (no_meta\<lparr> m_effectiveValue := Some 7 \<rparr>))"
proof -
  have a: "d_alignment (Deity_new (default_opts\<lparr> o_alignment := Some [] \<rparr>)) = []"
    "l_entries (d_ledger (Deity_new (default_opts\<lparr> o_alignment := Some [] \<rparr>))) = []"
    "d_alignment (Deity_new default_opts) = ''neutral''"
    "l_entries (d_ledger (Deity_new default_opts)) = []"
    by (simp_all add: Deity_new_def default_opts_def Ledger_new_def)
  obtain r1 where r1: "l_entries (d_ledger
       (Deity_offer (Deity_new (default_opts\<lparr> o_alignment := Some [] \<rparr>)) None
          (no_meta\<lparr> m_value := Some (8/10), m_alignment := Some ''chaotic'' \<rparr>))) =
       \<lparr> e_type = ''offer'', e_tick = l_tick (d_ledger (Deity_new (default_opts\<lparr> o_alignment := Some [] \<rparr>))),
         e_meta = spread (no_meta\<lparr> m_offeringType := Some ''generic'', m_value := Some (8/10),
                     m_effectiveValue := Some (8/10), m_alignment := Some ''chaotic'' \<rparr>)
                    (no_meta\<lparr> m_value := Some (8/10), m_alignment := Some ''chaotic'' \<rparr>) \<rparr> # r1"
    using offer_entries[of "Deity_new (default_opts\<lparr> o_alignment := Some [] \<rparr>)" None
        "no_meta\<lparr> m_value := Some (8/10), m_alignment := Some ''chaotic'' \<rparr>"]
    by (auto simp: a no_meta_def)
  obtain r2 where r2: "l_entries (d_ledger
       (Deity_offer (Deity_new default_opts) None (no_meta\<lparr> m_effectiveValue := Some 7 \<rparr>))) =
       \<lparr> e_type = ''offer'', e_tick = l_tick (d_ledger (Deity_new default_opts)),
         e_meta = spread (no_meta\<lparr> m_offeringType := Some ''generic'', m_value := Some (3/10),
                     m_effectiveValue := Some (45/100), m_alignment := Some ''neutral'' \<rparr>)
                    (no_meta\<lparr> m_effectiveValue := Some 7 \<rparr>) \<rparr> # r2"
    using offer_entries[of "Deity_new default_opts" None "no_meta\<lparr> m_effectiveValue := Some 7 \<rparr>"]
    by (auto simp: a no_meta_def)
  show ?thesis
    unfolding r1 r2 a
    by (simp add: spread_effectiveValue spec_effectiveValue_def no_meta_def Let_def)
qed

end
